theory Spec2Isabelle
  imports Main "HOL-Library.Word" "HOL-Library.Sublist"
begin

unbundle bit_operations_syntax

section \<open>Data model\<close>

text \<open>
  A \<open>solana.PublicKey\<close> is a 32-byte array and a \<open>solana.Hash\<close> likewise; both are
  byte lists here (the decoder below always produces 32 bytes for a key). Go's
  \<open>uint8\<close>, \<open>uint16\<close>, \<open>uint32\<close> and \<open>uint64\<close> are words of that width, Go's
  \<open>int\<close> (64 bit, used only for slice indices and lengths) is \<open>int\<close>.
\<close>

type_synonym byte = "8 word"
type_synonym PublicKey = "byte list"
type_synonym Hash = "byte list"

text \<open>\<open>solana.AccountMeta\<close> and \<open>solana.NewAccountMeta(key, writable, signer)\<close>.\<close>

record AccountMeta =
  am_PublicKey :: PublicKey
  am_IsWritable :: bool
  am_IsSigner :: bool

definition NewAccountMeta :: "PublicKey \<Rightarrow> bool \<Rightarrow> bool \<Rightarrow> AccountMeta" where
  "NewAccountMeta k w s = \<lparr>am_PublicKey = k, am_IsWritable = w, am_IsSigner = s\<rparr>"

text \<open>
  The stored message of a vault transaction (\<open>VaultTransactionMessage\<close> with its
  \<open>MultisigCompiledInstruction\<close> and \<open>MultisigMessageAddressTableLookup\<close>), with the
  fields and widths that \<open>createTransactionMessageBytes\<close> and \<open>ExecuteProposal\<close> use.
\<close>

record MultisigCompiledInstruction =
  mci_ProgramIdIndex :: byte
  mci_AccountIndexes :: "byte list"
  mci_Data :: "byte list"

record MultisigMessageAddressTableLookup =
  mal_AccountKey :: PublicKey
  mal_WritableIndexes :: "byte list"
  mal_ReadonlyIndexes :: "byte list"

record VaultTransactionMessage =
  vtm_NumSigners :: byte
  vtm_NumWritableSigners :: byte
  vtm_NumWritableNonSigners :: byte
  vtm_AccountKeys :: "PublicKey list"
  vtm_Instructions :: "MultisigCompiledInstruction list"
  vtm_AddressTableLookups :: "MultisigMessageAddressTableLookup list"

section \<open>Transfer payload (cmd/multisig-create/create.go)\<close>

text \<open>\<open>uint64ToLEBytes\<close>: eight assignments \<open>bytes[k] = byte(value >> 8k)\<close>.\<close>

definition uint64ToLEBytes :: "64 word \<Rightarrow> byte list" where
  "uint64ToLEBytes v =
     [ucast v, ucast (drop_bit 8 v), ucast (drop_bit 16 v), ucast (drop_bit 24 v),
      ucast (drop_bit 32 v), ucast (drop_bit 40 v), ucast (drop_bit 48 v),
      ucast (drop_bit 56 v)]"

definition SystemProgramID :: PublicKey where
  "SystemProgramID = replicate 32 0"

text \<open>
  The message that \<open>createTransactionMessageBytes\<close> builds before handing it to the
  Borsh encoder of the binary library. The instruction argument is not used by the
  source either.
\<close>

definition createTransactionMessage ::
  "'ix \<Rightarrow> PublicKey \<Rightarrow> PublicKey \<Rightarrow> 64 word \<Rightarrow> VaultTransactionMessage" where
  "createTransactionMessage ix vaultPDA recipientPubkey lamports =
     \<lparr>vtm_NumSigners = 1,
      vtm_NumWritableSigners = 1,
      vtm_NumWritableNonSigners = 1,
      vtm_AccountKeys = [vaultPDA, recipientPubkey, SystemProgramID],
      vtm_Instructions =
        [\<lparr>mci_ProgramIdIndex = 2,
          mci_AccountIndexes = [0, 1],
          mci_Data = [2, 0, 0, 0] @ uint64ToLEBytes lamports\<rparr>],
      vtm_AddressTableLookups = []\<rparr>"

text \<open>The number a little-endian byte string denotes (least significant byte first).\<close>

fun le_value :: "byte list \<Rightarrow> nat" where
  "le_value [] = 0"
| "le_value (b # bs) = unat b + 256 * le_value bs"

section \<open>Dynamic accounts of an execution (pkg/transaction/execute.go)\<close>

text \<open>
  The body of the loop over \<open>additionalAccounts\<close>: \<open>i\<close> is the slice index, the three
  counts are converted with \<open>int(...)\<close>, and the subtraction is a signed one.
\<close>

definition additional_isWritable :: "VaultTransactionMessage \<Rightarrow> int \<Rightarrow> bool" where
  "additional_isWritable msg i =
     (if i < uint (vtm_NumWritableSigners msg) then True
      else if i - uint (vtm_NumSigners msg) < uint (vtm_NumWritableNonSigners msg) then True
      else False)"

fun append_additional ::
  "VaultTransactionMessage \<Rightarrow> int \<Rightarrow> PublicKey list \<Rightarrow> AccountMeta list \<Rightarrow> AccountMeta list" where
  "append_additional msg i [] metas = metas"
| "append_additional msg i (accountKey # rest) metas =
     append_additional msg (i + 1) rest
       (metas @ [NewAccountMeta accountKey (additional_isWritable msg i) False])"

text \<open>
  The account list of the execute instruction: the four base accounts set by the
  builder (multisig, proposal, transaction, member; their flags are the builder's),
  then the additional accounts in stored order.
\<close>

definition execute_AccountMetaSlice ::
  "AccountMeta list \<Rightarrow> VaultTransactionMessage \<Rightarrow> AccountMeta list" where
  "execute_AccountMetaSlice base msg = append_additional msg 0 (vtm_AccountKeys msg) base"

text \<open>The writable flag that the partition counts give to position \<open>i\<close>.\<close>

definition partition_writable :: "VaultTransactionMessage \<Rightarrow> int \<Rightarrow> bool" where
  "partition_writable msg i \<longleftrightarrow>
     i < uint (vtm_NumWritableSigners msg) \<or>
     (uint (vtm_NumSigners msg) \<le> i \<and>
      i < uint (vtm_NumSigners msg) + uint (vtm_NumWritableNonSigners msg))"

section \<open>Binary codec of the transaction message (generated/squads_multisig_program)\<close>

text \<open>
  \<open>SmallVec[L, T]\<close> is a struct around a slice; its length type \<open>L\<close> only decides the
  width of the length prefix, so a \<open>SmallVec\<close> is a list here. The struct declarations
  of \<open>TransactionMessage\<close>, \<open>CompiledInstruction\<close> and \<open>MessageAddressTableLookup\<close>
  are taken from the way the codec, its test and \<open>createTransactionMessageBytes\<close> use
  the fields.
\<close>

record CompiledInstruction =
  ci_ProgramIdIndex :: byte
  ci_AccountIndexes :: "byte list"
  ci_Data :: "byte list"

record MessageAddressTableLookup =
  atl_AccountKey :: PublicKey
  atl_WritableIndexes :: "byte list"
  atl_ReadonlyIndexes :: "byte list"

record TransactionMessage =
  tm_NumSigners :: byte
  tm_NumWritableSigners :: byte
  tm_NumWritableNonSigners :: byte
  tm_AccountKeys :: "PublicKey list"
  tm_Instructions :: "CompiledInstruction list"
  tm_AddressTableLookups :: "MessageAddressTableLookup list"

text \<open>
  Errors of the codec: the two end-of-input errors of \<open>io.ReadFull\<close> and
  \<open>binary.Read\<close>, and the \<open>unsupported type: %T\<close> error of the \<open>default\<close> branches.
\<close>

datatype codec_error = EOF | ErrUnexpectedEOF | UnsupportedType string

subsection \<open>Encoder\<close>

text \<open>
  The writer is a \<open>bytes.Buffer\<close>, whose \<open>Write\<close> never fails. An encoding step returns
  the bytes it appends, or the error; after an error nothing more is written and the
  callers drop the buffer.
\<close>

definition then_write ::
  "codec_error + byte list \<Rightarrow> codec_error + byte list \<Rightarrow> codec_error + byte list" where
  "then_write a b =
     (case a of Inl e \<Rightarrow> Inl e
      | Inr x \<Rightarrow> (case b of Inl e \<Rightarrow> Inl e | Inr y \<Rightarrow> Inr (x @ y)))"

text \<open>The branches of the type switch in \<open>Encoder.Encode\<close> that the message reaches.\<close>

definition Encode_uint8 :: "byte \<Rightarrow> codec_error + byte list" where
  "Encode_uint8 b = Inr [b]"

definition Encode_uint16 :: "16 word \<Rightarrow> codec_error + byte list" where
  "Encode_uint16 w = Inr [ucast w, ucast (drop_bit 8 w)]"

definition Encode_bytes :: "byte list \<Rightarrow> codec_error + byte list" where
  "Encode_bytes bs = Inr bs"

definition Encode_PublicKey :: "PublicKey \<Rightarrow> codec_error + byte list" where
  "Encode_PublicKey k = Inr k"

text \<open>
  \<open>Encode(&m.AccountKey)\<close> passes a \<open>*solana.PublicKey\<close>. The switch has a case for the
  value type \<open>solana.PublicKey\<close> and none for the pointer, and the pointer type has no
  \<open>EncodeWith\<close> method, so the call ends in the \<open>default\<close> branch.
\<close>

definition Encode_PublicKey_pointer :: "PublicKey \<Rightarrow> codec_error + byte list" where
  "Encode_PublicKey_pointer k = Inl (UnsupportedType ''*solana.PublicKey'')"

fun encode_items :: "('a \<Rightarrow> codec_error + byte list) \<Rightarrow> 'a list \<Rightarrow> codec_error + byte list" where
  "encode_items f [] = Inr []"
| "encode_items f (item # items) = then_write (f item) (encode_items f items)"

definition CompiledInstruction_EncodeWith :: "CompiledInstruction \<Rightarrow> codec_error + byte list" where
  "CompiledInstruction_EncodeWith ci =
     then_write (Encode_uint8 (ci_ProgramIdIndex ci))
    (then_write (Encode_uint8 (of_nat (length (ci_AccountIndexes ci))))
    (then_write (Encode_bytes (ci_AccountIndexes ci))
    (then_write (Encode_uint16 (of_nat (length (ci_Data ci))))
                (Encode_bytes (ci_Data ci)))))"

definition MessageAddressTableLookup_EncodeWith ::
  "MessageAddressTableLookup \<Rightarrow> codec_error + byte list" where
  "MessageAddressTableLookup_EncodeWith m =
     then_write (Encode_PublicKey_pointer (atl_AccountKey m))
    (then_write (Encode_uint8 (of_nat (length (atl_WritableIndexes m))))
    (then_write (Encode_bytes (atl_WritableIndexes m))
    (then_write (Encode_uint8 (of_nat (length (atl_ReadonlyIndexes m))))
                (Encode_bytes (atl_ReadonlyIndexes m)))))"

definition Encode_SmallVec_PublicKey :: "PublicKey list \<Rightarrow> codec_error + byte list" where
  "Encode_SmallVec_PublicKey ks =
     then_write (Encode_uint8 (of_nat (length ks))) (encode_items Encode_PublicKey ks)"

definition Encode_SmallVec_CompiledInstruction ::
  "CompiledInstruction list \<Rightarrow> codec_error + byte list" where
  "Encode_SmallVec_CompiledInstruction cis =
     then_write (Encode_uint8 (of_nat (length cis)))
       (encode_items CompiledInstruction_EncodeWith cis)"

definition Encode_SmallVec_MessageAddressTableLookup ::
  "MessageAddressTableLookup list \<Rightarrow> codec_error + byte list" where
  "Encode_SmallVec_MessageAddressTableLookup ls =
     then_write (Encode_uint8 (of_nat (length ls)))
       (encode_items MessageAddressTableLookup_EncodeWith ls)"

definition TransactionMessage_EncodeWith :: "TransactionMessage \<Rightarrow> codec_error + byte list" where
  "TransactionMessage_EncodeWith tm =
     then_write (Encode_uint8 (tm_NumSigners tm))
    (then_write (Encode_uint8 (tm_NumWritableSigners tm))
    (then_write (Encode_uint8 (tm_NumWritableNonSigners tm))
    (then_write (Encode_SmallVec_PublicKey (tm_AccountKeys tm))
    (then_write (Encode_SmallVec_CompiledInstruction (tm_Instructions tm))
                (Encode_SmallVec_MessageAddressTableLookup (tm_AddressTableLookups tm))))))"

subsection \<open>Decoder\<close>

text \<open>
  The reader is the list of bytes not yet consumed; a decoding step returns the value
  and the rest, or the error. \<open>io.ReadFull\<close> into a buffer of length \<open>n\<close>: nothing is
  read for \<open>n = 0\<close>, \<open>io.EOF\<close> when no byte is left, \<open>io.ErrUnexpectedEOF\<close> when fewer
  than \<open>n\<close> are.
\<close>

definition ReadFull :: "nat \<Rightarrow> byte list \<Rightarrow> codec_error + (byte list \<times> byte list)" where
  "ReadFull n r =
     (if n = 0 then Inr ([], r)
      else if r = [] then Inl EOF
      else if length r < n then Inl ErrUnexpectedEOF
      else Inr (take n r, drop n r))"

definition and_then ::
  "codec_error + ('a \<times> byte list) \<Rightarrow> ('a \<Rightarrow> byte list \<Rightarrow> codec_error + ('b \<times> byte list)) \<Rightarrow>
   codec_error + ('b \<times> byte list)" where
  "and_then x f = (case x of Inl e \<Rightarrow> Inl e | Inr (v, r) \<Rightarrow> f v r)"

text \<open>The branches of the type switch in \<open>Decoder.Decode\<close> that the message reaches.\<close>

definition Decode_uint8 :: "byte list \<Rightarrow> codec_error + (byte \<times> byte list)" where
  "Decode_uint8 r = and_then (ReadFull 1 r) (\<lambda>bs r'. Inr (bs ! 0, r'))"

definition Decode_uint16 :: "byte list \<Rightarrow> codec_error + (16 word \<times> byte list)" where
  "Decode_uint16 r =
     and_then (ReadFull 2 r) (\<lambda>bs r'. Inr (ucast (bs ! 0) OR push_bit 8 (ucast (bs ! 1)), r'))"

definition Decode_bytes :: "nat \<Rightarrow> byte list \<Rightarrow> codec_error + (byte list \<times> byte list)" where
  "Decode_bytes n r = ReadFull n r"

definition Decode_PublicKey :: "byte list \<Rightarrow> codec_error + (PublicKey \<times> byte list)" where
  "Decode_PublicKey r = ReadFull 32 r"

text \<open>The loop \<open>for i := range val.Data\<close> over a slice made with \<open>n\<close> elements.\<close>

fun decode_items ::
  "(byte list \<Rightarrow> codec_error + ('a \<times> byte list)) \<Rightarrow> nat \<Rightarrow> byte list \<Rightarrow>
   codec_error + ('a list \<times> byte list)" where
  "decode_items f 0 r = Inr ([], r)"
| "decode_items f (Suc n) r =
     and_then (f r) (\<lambda>item r'.
     and_then (decode_items f n r') (\<lambda>items r''. Inr (item # items, r'')))"

definition CompiledInstruction_DecodeWith ::
  "byte list \<Rightarrow> codec_error + (CompiledInstruction \<times> byte list)" where
  "CompiledInstruction_DecodeWith r =
     and_then (Decode_uint8 r) (\<lambda>programIdIndex r1.
     and_then (Decode_uint8 r1) (\<lambda>accountsLen r2.
     and_then (Decode_bytes (unat accountsLen) r2) (\<lambda>accounts r3.
     and_then (Decode_uint16 r3) (\<lambda>dataLen r4.
     and_then (ReadFull (unat dataLen) r4) (\<lambda>data r5.
       Inr (\<lparr>ci_ProgramIdIndex = programIdIndex, ci_AccountIndexes = accounts,
             ci_Data = data\<rparr>, r5))))))"

definition MessageAddressTableLookup_DecodeWith ::
  "byte list \<Rightarrow> codec_error + (MessageAddressTableLookup \<times> byte list)" where
  "MessageAddressTableLookup_DecodeWith r =
     and_then (Decode_PublicKey r) (\<lambda>accountKey r1.
     and_then (Decode_uint8 r1) (\<lambda>writableLen r2.
     and_then (Decode_bytes (unat writableLen) r2) (\<lambda>writableData r3.
     and_then (Decode_uint8 r3) (\<lambda>readonlyLen r4.
     and_then (Decode_bytes (unat readonlyLen) r4) (\<lambda>readonlyData r5.
       Inr (\<lparr>atl_AccountKey = accountKey, atl_WritableIndexes = writableData,
             atl_ReadonlyIndexes = readonlyData\<rparr>, r5))))))"

definition Decode_SmallVec ::
  "(byte list \<Rightarrow> codec_error + ('a \<times> byte list)) \<Rightarrow> byte list \<Rightarrow>
   codec_error + ('a list \<times> byte list)" where
  "Decode_SmallVec f r = and_then (Decode_uint8 r) (\<lambda>len r'. decode_items f (unat len) r')"

definition TransactionMessage_DecodeWith ::
  "byte list \<Rightarrow> codec_error + (TransactionMessage \<times> byte list)" where
  "TransactionMessage_DecodeWith r =
     and_then (Decode_uint8 r) (\<lambda>numSigners r1.
     and_then (Decode_uint8 r1) (\<lambda>numWritableSigners r2.
     and_then (Decode_uint8 r2) (\<lambda>numWritableNonSigners r3.
     and_then (Decode_SmallVec Decode_PublicKey r3) (\<lambda>accountKeys r4.
     and_then (Decode_SmallVec CompiledInstruction_DecodeWith r4) (\<lambda>instructions r5.
     and_then (Decode_SmallVec MessageAddressTableLookup_DecodeWith r5) (\<lambda>lookups r6.
       Inr (\<lparr>tm_NumSigners = numSigners, tm_NumWritableSigners = numWritableSigners,
             tm_NumWritableNonSigners = numWritableNonSigners, tm_AccountKeys = accountKeys,
             tm_Instructions = instructions, tm_AddressTableLookups = lookups\<rparr>, r6)))))))"

text \<open>
  The length bounds of claim C5: every list fits its length prefix. A key is 32 bytes
  by its Go type.
\<close>

definition fits_length_prefixes :: "TransactionMessage \<Rightarrow> bool" where
  "fits_length_prefixes tm \<longleftrightarrow>
     length (tm_AccountKeys tm) \<le> 255 \<and>
     length (tm_Instructions tm) \<le> 255 \<and>
     length (tm_AddressTableLookups tm) \<le> 255 \<and>
     list_all (\<lambda>k. length k = 32) (tm_AccountKeys tm) \<and>
     list_all (\<lambda>ci. length (ci_AccountIndexes ci) \<le> 255 \<and> length (ci_Data ci) \<le> 65535)
       (tm_Instructions tm) \<and>
     list_all (\<lambda>l. length (atl_AccountKey l) = 32 \<and> length (atl_WritableIndexes l) \<le> 255 \<and>
                  length (atl_ReadonlyIndexes l) \<le> 255) (tm_AddressTableLookups tm)"

text \<open>A decoder keeps its result when more input follows what it was given.\<close>

definition extends :: "(byte list \<Rightarrow> codec_error + ('a \<times> byte list)) \<Rightarrow> bool" where
  "extends f \<longleftrightarrow> (\<forall>p v r s. f p = Inr (v, r) \<longrightarrow> f (p @ s) = Inr (v, r @ s))"

text \<open>The bytes that \<open>CompiledInstruction.EncodeWith\<close> writes for one instruction.\<close>

definition CompiledInstruction_bytes :: "CompiledInstruction \<Rightarrow> byte list" where
  "CompiledInstruction_bytes ci =
     ci_ProgramIdIndex ci # of_nat (length (ci_AccountIndexes ci)) # ci_AccountIndexes ci @
     ucast (of_nat (length (ci_Data ci)) :: 16 word) #
     ucast (drop_bit 8 (of_nat (length (ci_Data ci)) :: 16 word)) # ci_Data ci"

section \<open>Account metadata resolver and message compiler (package multisigtransaction)\<close>

text \<open>
  A \<open>solana.Instruction\<close> is an interface with \<open>ProgramID()\<close>, \<open>Accounts()\<close> and
  \<open>Data()\<close>; the record holds what the three return.
\<close>

record Instruction =
  ix_ProgramID :: PublicKey
  ix_Accounts :: "AccountMeta list"
  ix_Data :: "byte list"

record CompiledKeyMeta =
  ckm_IsSigner :: bool
  ckm_IsWritable :: bool
  ckm_IsInvoked :: bool

text \<open>
  \<open>KeyMetaMap\<close> is a Go map keyed by the base-58 text of an address. The text and the
  key determine each other (\<open>PublicKeyFromBase58\<close> of \<open>String()\<close> is the key), so the
  model keys the map by the key.
\<close>

type_synonym KeyMetaMap = "PublicKey \<rightharpoonup> CompiledKeyMeta"

record CompiledKeys =
  ck_Payer :: PublicKey
  ck_KeyMetaMap :: KeyMetaMap

definition NewCompiledKeys :: "PublicKey \<Rightarrow> KeyMetaMap \<Rightarrow> CompiledKeys" where
  "NewCompiledKeys payer keyMetaMap = \<lparr>ck_Payer = payer, ck_KeyMetaMap = keyMetaMap\<rparr>"

text \<open>
  The closure \<open>getOrInsertDefault\<close> returns a pointer to a copy of the entry, after
  inserting the all-false entry when the address is new: the copy and the map.
\<close>

definition getOrInsertDefault :: "KeyMetaMap \<Rightarrow> PublicKey \<Rightarrow> CompiledKeyMeta \<times> KeyMetaMap" where
  "getOrInsertDefault keyMetaMap pubkey =
     (case keyMetaMap pubkey of
        Some keyMeta \<Rightarrow> (keyMeta, keyMetaMap)
      | None \<Rightarrow>
          (\<lparr>ckm_IsSigner = False, ckm_IsWritable = False, ckm_IsInvoked = False\<rparr>,
           keyMetaMap(pubkey \<mapsto>
             \<lparr>ckm_IsSigner = False, ckm_IsWritable = False, ckm_IsInvoked = False\<rparr>)))"

text \<open>The inner loop of \<open>CompileKeys\<close> over the accounts of one instruction.\<close>

fun compile_accounts :: "KeyMetaMap \<Rightarrow> AccountMeta list \<Rightarrow> KeyMetaMap" where
  "compile_accounts keyMetaMap [] = keyMetaMap"
| "compile_accounts keyMetaMap (accountMeta # rest) =
     (let (keyMeta, m) = getOrInsertDefault keyMetaMap (am_PublicKey accountMeta);
          keyMeta1 = keyMeta\<lparr>ckm_IsSigner := ckm_IsSigner keyMeta \<or> am_IsSigner accountMeta\<rparr>;
          keyMeta2 = keyMeta1\<lparr>ckm_IsWritable := ckm_IsWritable keyMeta1 \<or> am_IsWritable accountMeta\<rparr>
      in compile_accounts (m(am_PublicKey accountMeta \<mapsto> keyMeta2)) rest)"

text \<open>The outer loop; the source assigns \<open>false\<close> to \<open>IsInvoked\<close> of the program's entry.\<close>

fun compile_instruction_keys :: "KeyMetaMap \<Rightarrow> Instruction list \<Rightarrow> KeyMetaMap" where
  "compile_instruction_keys keyMetaMap [] = keyMetaMap"
| "compile_instruction_keys keyMetaMap (ix # rest) =
     (let (programKeyMeta, m) = getOrInsertDefault keyMetaMap (ix_ProgramID ix);
          m1 = m(ix_ProgramID ix \<mapsto> programKeyMeta\<lparr>ckm_IsInvoked := False\<rparr>)
      in compile_instruction_keys (compile_accounts m1 (ix_Accounts ix)) rest)"

definition CompileKeys :: "Instruction list \<Rightarrow> PublicKey \<Rightarrow> CompiledKeys" where
  "CompileKeys instructions payer =
     (let (payerKeyMeta, m) = getOrInsertDefault Map.empty payer;
          m1 = m(payer \<mapsto> payerKeyMeta\<lparr>ckm_IsSigner := True, ckm_IsWritable := True\<rparr>)
      in NewCompiledKeys payer (compile_instruction_keys m1 instructions))"

text \<open>
  Ranging over a Go map visits every key once, in an order the language leaves
  unspecified and that may differ from one run to the next. The functions that range
  over \<open>KeyMetaMap\<close> take the order of the visit as an argument: a list of the keys
  of the map. \<open>range_of\<close> says that a list is such an order.
\<close>

definition range_of :: "KeyMetaMap \<Rightarrow> PublicKey list \<Rightarrow> bool" where
  "range_of keyMetaMap order \<longleftrightarrow> distinct order \<and> set order = dom keyMetaMap"

record MessageHeader =
  NumRequiredSignatures :: byte
  NumReadonlySignedAccounts :: byte
  NumReadonlyUnsignedAccounts :: byte

text \<open>
  The first loop of \<open>GetMessageComponents\<close>: each visited address is appended to one
  of the four slices. An address of the order that the map does not hold is not
  visited.
\<close>

fun bucket_loop ::
  "KeyMetaMap \<Rightarrow> PublicKey list \<Rightarrow>
   PublicKey list \<times> PublicKey list \<times> PublicKey list \<times> PublicKey list \<Rightarrow>
   PublicKey list \<times> PublicKey list \<times> PublicKey list \<times> PublicKey list" where
  "bucket_loop keyMetaMap [] buckets = buckets"
| "bucket_loop keyMetaMap (address # rest)
     (writableSigners, readonlySigners, writableNonSigners, readonlyNonSigners) =
     (case keyMetaMap address of
        None \<Rightarrow> bucket_loop keyMetaMap rest
          (writableSigners, readonlySigners, writableNonSigners, readonlyNonSigners)
      | Some meta \<Rightarrow>
          if ckm_IsSigner meta \<and> ckm_IsWritable meta then
            bucket_loop keyMetaMap rest
              (writableSigners @ [address], readonlySigners, writableNonSigners, readonlyNonSigners)
          else if ckm_IsSigner meta \<and> \<not> ckm_IsWritable meta then
            bucket_loop keyMetaMap rest
              (writableSigners, readonlySigners @ [address], writableNonSigners, readonlyNonSigners)
          else if \<not> ckm_IsSigner meta \<and> ckm_IsWritable meta then
            bucket_loop keyMetaMap rest
              (writableSigners, readonlySigners, writableNonSigners @ [address], readonlyNonSigners)
          else
            bucket_loop keyMetaMap rest
              (writableSigners, readonlySigners, writableNonSigners, readonlyNonSigners @ [address]))"

text \<open>
  \<open>GetMessageComponents\<close>: the header counts are \<open>uint8(len(...))\<close>, the static keys the
  four slices one after the other.
\<close>

definition GetMessageComponents ::
  "CompiledKeys \<Rightarrow> PublicKey list \<Rightarrow> MessageHeader \<times> PublicKey list" where
  "GetMessageComponents ck order =
     (case bucket_loop (ck_KeyMetaMap ck) order ([], [], [], []) of
        (writableSigners, readonlySigners, writableNonSigners, readonlyNonSigners) \<Rightarrow>
          (\<lparr>NumRequiredSignatures = of_nat (length writableSigners + length readonlySigners),
            NumReadonlySignedAccounts = of_nat (length readonlySigners),
            NumReadonlyUnsignedAccounts = of_nat (length readonlyNonSigners)\<rparr>,
           writableSigners @ readonlySigners @ writableNonSigners @ readonlyNonSigners))"

text \<open>
  The four buckets of the account ordering, as the addresses of a visit order whose
  entry has the bucket's flags.
\<close>

definition bucket ::
  "KeyMetaMap \<Rightarrow> bool \<Rightarrow> bool \<Rightarrow> PublicKey list \<Rightarrow> PublicKey list" where
  "bucket keyMetaMap signer writable order =
     filter (\<lambda>address. case keyMetaMap address of
                None \<Rightarrow> False
              | Some meta \<Rightarrow> ckm_IsSigner meta = signer \<and> ckm_IsWritable meta = writable) order"

record KeyedAddressLookupTable =
  lt_Key :: PublicKey
  lt_Addresses :: "PublicKey list"

record SolanaAddressTableLookup =
  sal_AccountKey :: PublicKey
  sal_WritableIndexes :: "byte list"
  sal_ReadonlyIndexes :: "byte list"

record AccountKeysFromLookups =
  akl_Writable :: "PublicKey list"
  akl_Readonly :: "PublicKey list"

text \<open>The inner loop of \<open>drainKeysFoundInLookupTable\<close>: the first entry equal to the key.\<close>

fun first_index :: "PublicKey list \<Rightarrow> PublicKey \<Rightarrow> nat \<Rightarrow> nat option" where
  "first_index [] key i = None"
| "first_index (entry # rest) key i = (if entry = key then Some i else first_index rest key (Suc i))"

text \<open>
  \<open>drainKeysFoundInLookupTable\<close> ranges over the map and deletes the entry it is at;
  the state is the map, the indexes and the drained keys.
\<close>

fun drain_loop ::
  "PublicKey list \<Rightarrow> (CompiledKeyMeta \<Rightarrow> bool) \<Rightarrow> PublicKey list \<Rightarrow>
   KeyMetaMap \<times> byte list \<times> PublicKey list \<Rightarrow> KeyMetaMap \<times> byte list \<times> PublicKey list" where
  "drain_loop lookupTableEntries keyMetaFilter [] st = st"
| "drain_loop lookupTableEntries keyMetaFilter (address # rest)
     (keyMetaMap, lookupTableIndexes, drainedKeys) =
     (case keyMetaMap address of
        None \<Rightarrow> drain_loop lookupTableEntries keyMetaFilter rest
                  (keyMetaMap, lookupTableIndexes, drainedKeys)
      | Some keyMeta \<Rightarrow>
          if keyMetaFilter keyMeta then
            (case first_index lookupTableEntries address 0 of
               Some i \<Rightarrow> drain_loop lookupTableEntries keyMetaFilter rest
                 (keyMetaMap(address := None), lookupTableIndexes @ [of_nat i],
                  drainedKeys @ [address])
             | None \<Rightarrow> drain_loop lookupTableEntries keyMetaFilter rest
                 (keyMetaMap, lookupTableIndexes, drainedKeys))
          else drain_loop lookupTableEntries keyMetaFilter rest
                 (keyMetaMap, lookupTableIndexes, drainedKeys))"

definition drainKeysFoundInLookupTable ::
  "KeyMetaMap \<Rightarrow> PublicKey list \<Rightarrow> (CompiledKeyMeta \<Rightarrow> bool) \<Rightarrow> PublicKey list \<Rightarrow>
   KeyMetaMap \<times> byte list \<times> PublicKey list" where
  "drainKeysFoundInLookupTable keyMetaMap lookupTableEntries keyMetaFilter order =
     drain_loop lookupTableEntries keyMetaFilter order (keyMetaMap, [], [])"

text \<open>
  \<open>ExtractTableLookup\<close>, with the visit order of each of its two ranges given by
  \<open>ro\<close> from the map at that moment. It returns the map after the deletions and,
  when something was found, the lookup and the drained keys.
\<close>

definition ExtractTableLookup ::
  "(KeyMetaMap \<Rightarrow> PublicKey list) \<Rightarrow> KeyMetaMap \<Rightarrow> KeyedAddressLookupTable \<Rightarrow>
   KeyMetaMap \<times> (SolanaAddressTableLookup \<times> AccountKeysFromLookups) option" where
  "ExtractTableLookup ro keyMetaMap lookupTable =
     (case drainKeysFoundInLookupTable keyMetaMap (lt_Addresses lookupTable)
             (\<lambda>keyMeta. \<not> ckm_IsSigner keyMeta \<and> \<not> ckm_IsInvoked keyMeta \<and> ckm_IsWritable keyMeta)
             (ro keyMetaMap) of
        (m1, writableIndexes, drainedWritableKeys) \<Rightarrow>
     (case drainKeysFoundInLookupTable m1 (lt_Addresses lookupTable)
             (\<lambda>keyMeta. \<not> ckm_IsSigner keyMeta \<and> \<not> ckm_IsInvoked keyMeta \<and> \<not> ckm_IsWritable keyMeta)
             (ro m1) of
        (m2, readonlyIndexes, drainedReadonlyKeys) \<Rightarrow>
          if writableIndexes = [] \<and> readonlyIndexes = [] then (m2, None)
          else (m2, Some (\<lparr>sal_AccountKey = lt_Key lookupTable,
                            sal_WritableIndexes = writableIndexes,
                            sal_ReadonlyIndexes = readonlyIndexes\<rparr>,
                          \<lparr>akl_Writable = drainedWritableKeys,
                            akl_Readonly = drainedReadonlyKeys\<rparr>))))"

record MessageAccountKeys =
  mak_StaticAccountKeys :: "PublicKey list"
  mak_AccountKeysFromLookups :: AccountKeysFromLookups

record SolanaCompiledInstruction =
  sci_ProgramIDIndex :: "16 word"
  sci_Accounts :: "16 word list"
  sci_Data :: "byte list"

text \<open>
  \<open>CompileInstructions\<close>: the three loops that fill \<open>accountIndexMap\<close> with a running
  \<open>uint16\<close> index, then the lookups, where a missing key reads as the zero value.
\<close>

fun index_keys ::
  "(PublicKey \<rightharpoonup> 16 word) \<times> 16 word \<Rightarrow> PublicKey list \<Rightarrow> (PublicKey \<rightharpoonup> 16 word) \<times> 16 word" where
  "index_keys st [] = st"
| "index_keys (accountIndexMap, index) (key # rest) =
     index_keys (accountIndexMap(key \<mapsto> index), index + 1) rest"

definition index_of :: "(PublicKey \<rightharpoonup> 16 word) \<Rightarrow> PublicKey \<Rightarrow> 16 word" where
  "index_of accountIndexMap key = (case accountIndexMap key of None \<Rightarrow> 0 | Some i \<Rightarrow> i)"

definition CompileInstructions ::
  "MessageAccountKeys \<Rightarrow> Instruction list \<Rightarrow> SolanaCompiledInstruction list" where
  "CompileInstructions mk instructions =
     (let st1 = index_keys (Map.empty, 0) (mak_StaticAccountKeys mk);
          st2 = index_keys st1 (akl_Writable (mak_AccountKeysFromLookups mk));
          st3 = index_keys st2 (akl_Readonly (mak_AccountKeysFromLookups mk));
          accountIndexMap = fst st3
      in map (\<lambda>instruction.
            \<lparr>sci_ProgramIDIndex = index_of accountIndexMap (ix_ProgramID instruction),
             sci_Accounts = map (\<lambda>accountMeta. index_of accountIndexMap (am_PublicKey accountMeta))
                              (ix_Accounts instruction),
             sci_Data = ix_Data instruction\<rparr>) instructions)"

datatype MessageVersion = MessageVersionLegacy | MessageVersionV0

record Message =
  msg_Header :: MessageHeader
  msg_AccountKeys :: "PublicKey list"
  msg_RecentBlockhash :: Hash
  msg_Instructions :: "SolanaCompiledInstruction list"
  msg_AddressTableLookups :: "SolanaAddressTableLookup list"
  msg_version :: MessageVersion

text \<open>The loop of \<open>CompileToWrappedMessageV0\<close> over the lookup tables.\<close>

fun extract_lookups ::
  "(KeyMetaMap \<Rightarrow> PublicKey list) \<Rightarrow> KeyedAddressLookupTable list \<Rightarrow>
   KeyMetaMap \<times> SolanaAddressTableLookup list \<times> AccountKeysFromLookups \<Rightarrow>
   KeyMetaMap \<times> SolanaAddressTableLookup list \<times> AccountKeysFromLookups" where
  "extract_lookups ro [] st = st"
| "extract_lookups ro (lookupTable # rest) (keyMetaMap, addressTableLookups, accountKeysFromLookups) =
     (case ExtractTableLookup ro keyMetaMap lookupTable of
        (m, None) \<Rightarrow> extract_lookups ro rest (m, addressTableLookups, accountKeysFromLookups)
      | (m, Some (lookup, keys)) \<Rightarrow>
          extract_lookups ro rest
            (m, addressTableLookups @ [lookup],
             \<lparr>akl_Writable = akl_Writable accountKeysFromLookups @ akl_Writable keys,
              akl_Readonly = akl_Readonly accountKeysFromLookups @ akl_Readonly keys\<rparr>))"

definition CompileToWrappedMessageV0 ::
  "(KeyMetaMap \<Rightarrow> PublicKey list) \<Rightarrow> PublicKey \<Rightarrow> Hash \<Rightarrow> Instruction list \<Rightarrow>
   KeyedAddressLookupTable list \<Rightarrow> Message" where
  "CompileToWrappedMessageV0 ro payerKey recentBlockhash instructions addressLookupTableAccounts =
     (let compiledKeys = CompileKeys instructions payerKey in
      case extract_lookups ro addressLookupTableAccounts
             (ck_KeyMetaMap compiledKeys, [], \<lparr>akl_Writable = [], akl_Readonly = []\<rparr>) of
        (m, addressTableLookups, accountKeysFromLookups) \<Rightarrow>
      case GetMessageComponents (compiledKeys\<lparr>ck_KeyMetaMap := m\<rparr>) (ro m) of
        (header, staticAccountKeys) \<Rightarrow>
          \<lparr>msg_Header = header,
           msg_AccountKeys = staticAccountKeys,
           msg_RecentBlockhash = recentBlockhash,
           msg_Instructions =
             CompileInstructions
               \<lparr>mak_StaticAccountKeys = staticAccountKeys,
                mak_AccountKeysFromLookups = accountKeysFromLookups\<rparr> instructions,
           msg_AddressTableLookups = addressTableLookups,
           msg_version = MessageVersionV0\<rparr>)"

text \<open>
  For stating what \<open>CompileKeys\<close> computes: the entry of an address, all-false when the
  map has none, and the addresses that a list of instructions mentions.
\<close>

definition entry_flags :: "KeyMetaMap \<Rightarrow> PublicKey \<Rightarrow> CompiledKeyMeta" where
  "entry_flags m k =
     (case m k of
        None \<Rightarrow> \<lparr>ckm_IsSigner = False, ckm_IsWritable = False, ckm_IsInvoked = False\<rparr>
      | Some meta \<Rightarrow> meta)"

definition instruction_keys :: "Instruction list \<Rightarrow> PublicKey set" where
  "instruction_keys ixs =
     (\<Union>ix\<in>set ixs. insert (ix_ProgramID ix) (am_PublicKey ` set (ix_Accounts ix)))"

text \<open>
  Concrete inputs: three addresses, the system transfer from the vault (writable
  signer) to the recipient (writable), and an instruction that lists the 255
  addresses \<open>numbered_key 1\<close> to \<open>numbered_key 255\<close> as writable signers.
\<close>

definition payer_key :: PublicKey where "payer_key = replicate 32 1"
definition vault_key :: PublicKey where "vault_key = replicate 32 2"
definition recipient_key :: PublicKey where "recipient_key = replicate 32 3"

definition transfer_instruction :: "64 word \<Rightarrow> Instruction" where
  "transfer_instruction lamports =
     \<lparr>ix_ProgramID = SystemProgramID,
      ix_Accounts = [NewAccountMeta vault_key True True, NewAccountMeta recipient_key True False],
      ix_Data = [2, 0, 0, 0] @ uint64ToLEBytes lamports\<rparr>"

definition numbered_key :: "nat \<Rightarrow> PublicKey" where
  "numbered_key n = replicate 31 9 @ [of_nat n]"

definition many_signers_instruction :: Instruction where
  "many_signers_instruction =
     \<lparr>ix_ProgramID = SystemProgramID,
      ix_Accounts = map (\<lambda>n. NewAccountMeta (numbered_key n) True True) [1..<256],
      ix_Data = []\<rparr>"

definition many_signers_order :: "PublicKey list" where
  "many_signers_order = map numbered_key [0..<256] @ [SystemProgramID]"

section \<open>Voting and execution (pkg/transaction)\<close>

text \<open>
  The on-chain records, with the fields that the two use cases read. A timestamp is
  an \<open>int64\<close> (read with \<open>sint\<close>), the time lock a \<open>uint32\<close>, a permission mask a
  \<open>uint8\<close>. The proposal status is the tagged union that the source inspects with type
  assertions.
\<close>

datatype ProposalStatus =
    ProposalStatusDraft "64 word"
  | ProposalStatusActive "64 word"
  | ProposalStatusRejected "64 word"
  | ProposalStatusApproved "64 word"
  | ProposalStatusExecuting
  | ProposalStatusExecuted "64 word"
  | ProposalStatusCancelled "64 word"

record Member =
  mem_Key :: PublicKey
  mem_Mask :: byte

record Multisig =
  ms_Threshold :: "16 word"
  ms_TimeLock :: "32 word"
  ms_Members :: "Member list"

record Proposal =
  prop_Status :: ProposalStatus
  prop_Approved :: "PublicKey list"
  prop_Rejected :: "PublicKey list"
  prop_Cancelled :: "PublicKey list"

record VaultTransaction =
  vt_Message :: VaultTransactionMessage

text \<open>
  The instructions of the multisig program that the two use cases build, by the
  arguments given to their constructors: the vote arguments (the optional memo) and
  the accounts. The execute instruction holds the four accounts set through the
  builder and the account metas appended after them.
\<close>

datatype ProgramInstruction =
    ProposalApproveInstruction "string option" PublicKey PublicKey PublicKey
  | ProposalRejectInstruction "string option" PublicKey PublicKey PublicKey
  | ProposalCancelV2Instruction "string option" PublicKey PublicKey PublicKey PublicKey
  | VaultTransactionExecuteInstruction PublicKey PublicKey PublicKey PublicKey "AccountMeta list"

text \<open>A transaction as \<open>solana.NewTransaction\<close> and \<open>Sign\<close> leave it.\<close>

record Transaction =
  tx_Instructions :: "ProgramInstruction list"
  tx_RecentBlockhash :: Hash
  tx_Payer :: PublicKey
  tx_SignedBy :: "PublicKey list"

text \<open>
  An RPC endpoint, by what its calls return: an error text or the value.
  \<open>GetAccountInfo\<close> returns the account data, or no value (\<open>Value == nil\<close>).
  \<open>ws_Connect\<close> is the outcome of \<open>ws.Connect\<close> (\<open>None\<close> for success).
\<close>

record rpc_world =
  rpc_GetAccountInfo :: "PublicKey \<Rightarrow> string + byte list option"
  rpc_GetLatestBlockhash :: "string + Hash"
  rpc_SendTransaction :: "Transaction \<Rightarrow> string + string"
  ws_Connect :: "string option"

datatype WsClient = WsClient

text \<open>
  Everything else the two functions call and the sources do not contain: the endpoint
  behind the default URLs, the clock (\<open>time.Now()\<close>, in nanoseconds since the Unix
  epoch), the address derivations of package \<open>multisig\<close>, the generated Borsh decoders
  of the three records, and the errors of \<open>solana.NewTransaction\<close> and \<open>tx.Sign\<close>.
\<close>

record environment =
  env_default_endpoint :: rpc_world
  env_Now :: int
  env_GetProposalPDA :: "PublicKey \<Rightarrow> 64 word \<Rightarrow> PublicKey"
  env_GetTransactionPDA :: "PublicKey \<Rightarrow> 64 word \<Rightarrow> PublicKey"
  env_UnmarshalMultisig :: "byte list \<Rightarrow> string + Multisig"
  env_UnmarshalProposal :: "byte list \<Rightarrow> string + Proposal"
  env_UnmarshalVaultTransaction :: "byte list \<Rightarrow> string + VaultTransaction"
  env_NewTransaction_error :: "ProgramInstruction list \<Rightarrow> Hash \<Rightarrow> PublicKey \<Rightarrow> string option"
  env_Sign_error :: "Transaction \<Rightarrow> string option"

text \<open>The network effects of a call, in the order they happen.\<close>

datatype net_event =
    Ev_wsConnect
  | Ev_GetAccountInfo PublicKey
  | Ev_GetLatestBlockhash
  | Ev_SendTransaction Transaction

datatype fetch_failure = GetAccountFailed string | DecodeFailed string

datatype tx_error =
    InvalidAction string
  | WsConnectFailed string
  | FetchMultisigAccountFailed string
  | MultisigAccountNotInitialized PublicKey
  | FetchProposalAccountFailed string
  | ProposalAccountNotInitialized PublicKey
  | NilPointerPanic
  | FetchMultisigFailed fetch_failure
  | FetchProposalFailed fetch_failure
  | ProposalNotApproved ProposalStatus
  | TimelockNotElapsed int
  | NoExecutePermission PublicKey
  | GetTransactionAccountFailed string
  | TransactionAccountInvalid PublicKey
  | DecodeVaultTransactionFailed string
  | NoInstructions
  | GetLatestBlockhashFailed string
  | CreateTransactionFailed string
  | SignTransactionFailed string
  | SendTransactionFailed string

text \<open>
  A \<open>solana.PrivateKey\<close> is the 64-byte ed25519 key pair; \<open>PublicKey()\<close> is its second
  half.
\<close>

type_synonym PrivateKey = "byte list"

definition PrivateKey_PublicKey :: "PrivateKey \<Rightarrow> PublicKey" where
  "PrivateKey_PublicKey k = drop 32 k"

subsection \<open>VoteOnProposal (approve.go)\<close>

record ProposalVoteInput =
  pvi_Multisig :: PublicKey
  pvi_TransactionIndex :: "64 word"
  pvi_Voter :: PrivateKey
  pvi_Memo :: string
  pvi_Action :: string
  pvi_Client :: "rpc_world option"
  pvi_WsClient :: "WsClient option"

text \<open>The output; the source fills three fields and leaves the others at their zero value.\<close>

record ProposalVoteOutput =
  pvo_Signature :: string
  pvo_ProposalPDA :: PublicKey
  pvo_Action :: string
  pvo_CurrentStatus :: string
  pvo_Approvals :: int
  pvo_Rejections :: int
  pvo_Cancelled :: int
  pvo_Threshold :: "16 word"

text \<open>The \<open>switch action\<close>; it has no default branch, so another action leaves \<open>nil\<close>.\<close>

definition voting_instruction ::
  "string \<Rightarrow> string option \<Rightarrow> PublicKey \<Rightarrow> PublicKey \<Rightarrow> PublicKey \<Rightarrow> ProgramInstruction option" where
  "voting_instruction action memo multisigKey voter proposalPDA =
     (if action = ''approve'' then Some (ProposalApproveInstruction memo multisigKey voter proposalPDA)
      else if action = ''reject'' then Some (ProposalRejectInstruction memo multisigKey voter proposalPDA)
      else if action = ''cancel'' then
        Some (ProposalCancelV2Instruction memo multisigKey voter proposalPDA SystemProgramID)
      else None)"

text \<open>
  Lines 83 to 191: from the derivation of the proposal address to the submission, with
  the client and the action already fixed; the other arguments are the fields
  \<open>Multisig\<close>, \<open>TransactionIndex\<close>, \<open>Voter\<close> and \<open>Memo\<close> of the input.
\<close>

definition vote_submit ::
  "environment \<Rightarrow> rpc_world \<Rightarrow> PublicKey \<Rightarrow> 64 word \<Rightarrow> PrivateKey \<Rightarrow> string \<Rightarrow> string \<Rightarrow>
   net_event list \<times> (tx_error + ProposalVoteOutput)" where
  "vote_submit env client multisigKey transactionIndex voterKeypair inputMemo action =
     (let proposalPDA = env_GetProposalPDA env multisigKey transactionIndex;
          voter = PrivateKey_PublicKey voterKeypair;
          memo = (if inputMemo \<noteq> [] then Some inputMemo else None);
          e1 = Ev_GetAccountInfo multisigKey;
          e2 = Ev_GetAccountInfo proposalPDA
      in
      case rpc_GetAccountInfo client multisigKey of
        Inl err \<Rightarrow> ([e1], Inl (FetchMultisigAccountFailed err))
      | Inr multisigInfo \<Rightarrow>
      if multisigInfo = None \<or> multisigInfo = Some [] then
        ([e1], Inl (MultisigAccountNotInitialized multisigKey))
      else
      case rpc_GetAccountInfo client proposalPDA of
        Inl err \<Rightarrow> ([e1, e2], Inl (FetchProposalAccountFailed err))
      | Inr proposalInfo \<Rightarrow>
      if proposalInfo = None \<or> proposalInfo = Some [] then
        ([e1, e2], Inl (ProposalAccountNotInitialized proposalPDA))
      else
      case voting_instruction action memo multisigKey voter proposalPDA of
        None \<Rightarrow> ([e1, e2], Inl NilPointerPanic)
      | Some votingIx \<Rightarrow>
      case rpc_GetLatestBlockhash client of
        Inl err \<Rightarrow> ([e1, e2, Ev_GetLatestBlockhash], Inl (GetLatestBlockhashFailed err))
      | Inr hash \<Rightarrow>
      case env_NewTransaction_error env [votingIx] hash voter of
        Some err \<Rightarrow> ([e1, e2, Ev_GetLatestBlockhash], Inl (CreateTransactionFailed err))
      | None \<Rightarrow>
      let tx = \<lparr>tx_Instructions = [votingIx], tx_RecentBlockhash = hash, tx_Payer = voter,
                tx_SignedBy = [voter]\<rparr> in
      case env_Sign_error env tx of
        Some err \<Rightarrow> ([e1, e2, Ev_GetLatestBlockhash], Inl (SignTransactionFailed err))
      | None \<Rightarrow>
      case rpc_SendTransaction client tx of
        Inl err \<Rightarrow>
          ([e1, e2, Ev_GetLatestBlockhash, Ev_SendTransaction tx], Inl (SendTransactionFailed err))
      | Inr sig \<Rightarrow>
          ([e1, e2, Ev_GetLatestBlockhash, Ev_SendTransaction tx],
           Inr \<lparr>pvo_Signature = sig, pvo_ProposalPDA = proposalPDA, pvo_Action = action,
                pvo_CurrentStatus = [], pvo_Approvals = 0, pvo_Rejections = 0,
                pvo_Cancelled = 0, pvo_Threshold = 0\<rparr>))"

text \<open>
  \<open>VoteOnProposal\<close>: the action and its validation (lines 49 to 57), the clients
  (lines 61 to 81), then the rest. The result is the trace of network effects and the
  returned error or output.
\<close>

definition VoteOnProposal ::
  "environment \<Rightarrow> ProposalVoteInput \<Rightarrow> net_event list \<times> (tx_error + ProposalVoteOutput)" where
  "VoteOnProposal env input =
     (let action = (if pvi_Action input = [] then ''approve'' else pvi_Action input) in
      if action \<noteq> ''approve'' \<and> action \<noteq> ''reject'' \<and> action \<noteq> ''cancel'' then
        ([], Inl (InvalidAction action))
      else
      let client = (case pvi_Client input of None \<Rightarrow> env_default_endpoint env | Some c \<Rightarrow> c) in
      case pvi_WsClient input of
        Some ws \<Rightarrow>
          vote_submit env client (pvi_Multisig input) (pvi_TransactionIndex input)
            (pvi_Voter input) (pvi_Memo input) action
      | None \<Rightarrow>
          (case ws_Connect (env_default_endpoint env) of
             Some err \<Rightarrow> ([Ev_wsConnect], Inl (WsConnectFailed err))
           | None \<Rightarrow>
               (case vote_submit env client (pvi_Multisig input) (pvi_TransactionIndex input)
                       (pvi_Voter input) (pvi_Memo input) action of
                  (events, result) \<Rightarrow> (Ev_wsConnect # events, result))))"




subsection \<open>ExecuteProposal (execute.go)\<close>

record ProposalExecuteOutput =
  peo_Signature :: string
  peo_TransactionPDA :: PublicKey
  peo_ProposalPDA :: PublicKey
  peo_TransactionIndex :: "64 word"

text \<open>
  \<open>fetchMultisigAccount\<close> and \<open>fetchProposalAccount\<close>: the account is read and decoded;
  \<open>accountInfo.Value.Data\<close> is dereferenced without a nil test.
\<close>

definition fetchMultisigAccount ::
  "environment \<Rightarrow> rpc_world \<Rightarrow> PublicKey \<Rightarrow> tx_error + Multisig" where
  "fetchMultisigAccount env client multisigPDA =
     (case rpc_GetAccountInfo client multisigPDA of
        Inl err \<Rightarrow> Inl (FetchMultisigFailed (GetAccountFailed err))
      | Inr None \<Rightarrow> Inl NilPointerPanic
      | Inr (Some data) \<Rightarrow>
          (case env_UnmarshalMultisig env data of
             Inl err \<Rightarrow> Inl (FetchMultisigFailed (DecodeFailed err))
           | Inr multisigAccount \<Rightarrow> Inr multisigAccount))"

definition fetchProposalAccount ::
  "environment \<Rightarrow> rpc_world \<Rightarrow> PublicKey \<Rightarrow> tx_error + Proposal" where
  "fetchProposalAccount env client proposalPDA =
     (case rpc_GetAccountInfo client proposalPDA of
        Inl err \<Rightarrow> Inl (FetchProposalFailed (GetAccountFailed err))
      | Inr None \<Rightarrow> Inl NilPointerPanic
      | Inr (Some data) \<Rightarrow>
          (case env_UnmarshalProposal env data of
             Inl err \<Rightarrow> Inl (FetchProposalFailed (DecodeFailed err))
           | Inr proposalAccount \<Rightarrow> Inr proposalAccount))"

text \<open>
  The end of the time lock, in nanoseconds since the Unix epoch:
  \<open>time.Unix(Timestamp, 0).Add(time.Duration(TimeLock) * time.Second)\<close>. The product
  is below \<open>2^32 * 10^9\<close> and fits a \<open>Duration\<close>; instants are integers here, as the
  time package presents them.
\<close>

definition timelockEnd :: "64 word \<Rightarrow> 32 word \<Rightarrow> int" where
  "timelockEnd timestamp timeLock = sint timestamp * 1000000000 + uint timeLock * 1000000000"

text \<open>The loop over the members, with its \<open>break\<close>.\<close>

fun hasExecutePermission :: "Member list \<Rightarrow> PublicKey \<Rightarrow> bool" where
  "hasExecutePermission [] executor = False"
| "hasExecutePermission (member # rest) executor =
     (if mem_Key member = executor then
        (if mem_Mask member AND 4 \<noteq> 0 then True else hasExecutePermission rest executor)
      else hasExecutePermission rest executor)"

text \<open>
  Lines 72 to 102, the three checks on the fetched records: the error of the first
  check that fails, or \<open>None\<close>.
\<close>

definition execute_checks ::
  "int \<Rightarrow> Multisig \<Rightarrow> Proposal \<Rightarrow> PublicKey \<Rightarrow> tx_error option" where
  "execute_checks now multisigAccount proposal executor =
     (case prop_Status proposal of
        ProposalStatusApproved timestamp \<Rightarrow>
          if now < timelockEnd timestamp (ms_TimeLock multisigAccount) \<and>
             ms_TimeLock multisigAccount > 0
          then Some (TimelockNotElapsed (timelockEnd timestamp (ms_TimeLock multisigAccount)))
          else if \<not> hasExecutePermission (ms_Members multisigAccount) executor
          then Some (NoExecutePermission executor)
          else None
      | status \<Rightarrow> Some (ProposalNotApproved status))"

text \<open>Lines 104 to 207: the transaction account, the execute instruction, the submission.\<close>

definition execute_submit ::
  "environment \<Rightarrow> rpc_world \<Rightarrow> PublicKey \<Rightarrow> PublicKey \<Rightarrow> PublicKey \<Rightarrow> 64 word \<Rightarrow> PublicKey \<Rightarrow>
   net_event list \<times> (tx_error + ProposalExecuteOutput)" where
  "execute_submit env client multisigPDA proposalPDA txPDA transactionIndex executor =
     (let e3 = Ev_GetAccountInfo txPDA in
      case rpc_GetAccountInfo client txPDA of
        Inl err \<Rightarrow> ([e3], Inl (GetTransactionAccountFailed err))
      | Inr None \<Rightarrow> ([e3], Inl (TransactionAccountInvalid txPDA))
      | Inr (Some data) \<Rightarrow>
      if length data < 8 then ([e3], Inl (TransactionAccountInvalid txPDA))
      else
      case env_UnmarshalVaultTransaction env data of
        Inl err \<Rightarrow> ([e3], Inl (DecodeVaultTransactionFailed err))
      | Inr vaultTx \<Rightarrow>
      if vtm_Instructions (vt_Message vaultTx) = [] then ([e3], Inl NoInstructions)
      else
      let executeIx = VaultTransactionExecuteInstruction multisigPDA proposalPDA txPDA executor
                        (execute_AccountMetaSlice [] (vt_Message vaultTx)) in
      case rpc_GetLatestBlockhash client of
        Inl err \<Rightarrow> ([e3, Ev_GetLatestBlockhash], Inl (GetLatestBlockhashFailed err))
      | Inr hash \<Rightarrow>
      case env_NewTransaction_error env [executeIx] hash executor of
        Some err \<Rightarrow> ([e3, Ev_GetLatestBlockhash], Inl (CreateTransactionFailed err))
      | None \<Rightarrow>
      let tx = \<lparr>tx_Instructions = [executeIx], tx_RecentBlockhash = hash, tx_Payer = executor,
                tx_SignedBy = [executor]\<rparr> in
      case env_Sign_error env tx of
        Some err \<Rightarrow> ([e3, Ev_GetLatestBlockhash], Inl (SignTransactionFailed err))
      | None \<Rightarrow>
      case rpc_SendTransaction client tx of
        Inl err \<Rightarrow> ([e3, Ev_GetLatestBlockhash, Ev_SendTransaction tx], Inl (SendTransactionFailed err))
      | Inr sig \<Rightarrow>
          ([e3, Ev_GetLatestBlockhash, Ev_SendTransaction tx],
           Inr \<lparr>peo_Signature = sig, peo_TransactionPDA = txPDA, peo_ProposalPDA = proposalPDA,
                peo_TransactionIndex = transactionIndex\<rparr>))"

text \<open>Lines 56 to 102 and the hand-over to the rest, with the client fixed.\<close>

definition execute_with_client ::
  "environment \<Rightarrow> rpc_world \<Rightarrow> PublicKey \<Rightarrow> 64 word \<Rightarrow> PublicKey \<Rightarrow>
   net_event list \<times> (tx_error + ProposalExecuteOutput)" where
  "execute_with_client env client multisigPDA transactionIndex executor =
     (let txPDA = env_GetTransactionPDA env multisigPDA transactionIndex;
          proposalPDA = env_GetProposalPDA env multisigPDA transactionIndex;
          e1 = Ev_GetAccountInfo multisigPDA;
          e2 = Ev_GetAccountInfo proposalPDA
      in
      case fetchMultisigAccount env client multisigPDA of
        Inl err \<Rightarrow> ([e1], Inl err)
      | Inr multisigAccount \<Rightarrow>
      case fetchProposalAccount env client proposalPDA of
        Inl err \<Rightarrow> ([e1, e2], Inl err)
      | Inr proposal \<Rightarrow>
      case execute_checks (env_Now env) multisigAccount proposal executor of
        Some err \<Rightarrow> ([e1, e2], Inl err)
      | None \<Rightarrow>
          (case execute_submit env client multisigPDA proposalPDA txPDA transactionIndex executor of
             (events, result) \<Rightarrow> (e1 # e2 # events, result)))"

definition ExecuteProposal ::
  "environment \<Rightarrow> PublicKey \<Rightarrow> 64 word \<Rightarrow> PrivateKey \<Rightarrow> rpc_world option \<Rightarrow> WsClient option \<Rightarrow>
   net_event list \<times> (tx_error + ProposalExecuteOutput)" where
  "ExecuteProposal env multisigPDA transactionIndex executor client wsClient =
     (let c = (case client of None \<Rightarrow> env_default_endpoint env | Some c \<Rightarrow> c) in
      case wsClient of
        Some ws \<Rightarrow>
          execute_with_client env c multisigPDA transactionIndex (PrivateKey_PublicKey executor)
      | None \<Rightarrow>
          (case ws_Connect (env_default_endpoint env) of
             Some err \<Rightarrow> ([Ev_wsConnect], Inl (WsConnectFailed err))
           | None \<Rightarrow>
               (case execute_with_client env c multisigPDA transactionIndex
                       (PrivateKey_PublicKey executor) of
                  (events, result) \<Rightarrow> (Ev_wsConnect # events, result))))"

text \<open>The executor holds the execute bit: some member entry with its key has bit 4 set.\<close>

definition has_execute_bit :: "Multisig \<Rightarrow> PublicKey \<Rightarrow> bool" where
  "has_execute_bit multisigAccount executor =
     list_ex (\<lambda>member. mem_Key member = executor \<and> mem_Mask member AND 4 \<noteq> 0)
       (ms_Members multisigAccount)"

text \<open>
  A concrete setting for the use cases: a multisig, its proposal and its transaction
  account at three addresses, an endpoint on which every call succeeds, and decoders
  that read the three accounts as the given records. The member's key pair has
  \<open>payer_key\<close> as its public key.
\<close>

definition multisig_key :: PublicKey where "multisig_key = replicate 32 10"
definition proposal_pda :: PublicKey where "proposal_pda = replicate 32 11"
definition transaction_pda :: PublicKey where "transaction_pda = replicate 32 12"
definition member_keypair :: PrivateKey where "member_keypair = replicate 32 0 @ payer_key"

definition demo_endpoint :: rpc_world where
  "demo_endpoint =
     \<lparr>rpc_GetAccountInfo =
        (\<lambda>k. if k = multisig_key then Inr (Some (replicate 8 1))
             else if k = proposal_pda then Inr (Some (replicate 8 2))
             else if k = transaction_pda then Inr (Some (replicate 8 3))
             else Inr None),
      rpc_GetLatestBlockhash = Inr (replicate 32 5),
      rpc_SendTransaction = (\<lambda>tx. Inr ''sig''),
      ws_Connect = None\<rparr>"

definition demo_env :: "Multisig \<Rightarrow> Proposal \<Rightarrow> int \<Rightarrow> environment" where
  "demo_env multisigAccount proposal now =
     \<lparr>env_default_endpoint = demo_endpoint,
      env_Now = now,
      env_GetProposalPDA = (\<lambda>m i. proposal_pda),
      env_GetTransactionPDA = (\<lambda>m i. transaction_pda),
      env_UnmarshalMultisig = (\<lambda>d. if d = replicate 8 1 then Inr multisigAccount else Inl ''short''),
      env_UnmarshalProposal = (\<lambda>d. if d = replicate 8 2 then Inr proposal else Inl ''short''),
      env_UnmarshalVaultTransaction =
        (\<lambda>d. if d = replicate 8 3
             then Inr \<lparr>vt_Message = createTransactionMessage () vault_key recipient_key 1000000000\<rparr>
             else Inl ''short''),
      env_NewTransaction_error = (\<lambda>ixs h p. None),
      env_Sign_error = (\<lambda>tx. None)\<rparr>"

definition demo_multisig :: "32 word \<Rightarrow> byte \<Rightarrow> Multisig" where
  "demo_multisig timeLock permissions =
     \<lparr>ms_Threshold = 1, ms_TimeLock = timeLock,
      ms_Members = [\<lparr>mem_Key = payer_key, mem_Mask = permissions\<rparr>]\<rparr>"

definition demo_proposal :: "ProposalStatus \<Rightarrow> Proposal" where
  "demo_proposal status =
     \<lparr>prop_Status = status, prop_Approved = [payer_key], prop_Rejected = [], prop_Cancelled = []\<rparr>"

definition demo_vote_input :: "string \<Rightarrow> ProposalVoteInput" where
  "demo_vote_input action =
     \<lparr>pvi_Multisig = multisig_key, pvi_TransactionIndex = 1, pvi_Voter = member_keypair,
      pvi_Memo = [], pvi_Action = action, pvi_Client = None, pvi_WsClient = Some WsClient\<rparr>"


definition demo_execute_tx :: Transaction where
  "demo_execute_tx =
     \<lparr>tx_Instructions =
        [VaultTransactionExecuteInstruction multisig_key proposal_pda transaction_pda payer_key
           [NewAccountMeta vault_key True False, NewAccountMeta recipient_key True False,
            NewAccountMeta SystemProgramID False False]],
      tx_RecentBlockhash = replicate 32 5, tx_Payer = payer_key, tx_SignedBy = [payer_key]\<rparr>"

section \<open>Theorems\<close>


subsection \<open>Little-endian bytes\<close>

lemma ucast_drop_bit_byte:
  "(ucast (drop_bit k (v :: 64 word)) :: byte) = of_nat (unat v div 2 ^ k mod 256)"
proof -
  have "unat (ucast (drop_bit k v) :: byte) = take_bit 8 (drop_bit k (unat v))"
    by (simp add: unsigned_ucast_eq unat_drop_bit_eq)
  also have "\<dots> = unat v div 2 ^ k mod 256"
    by (simp add: take_bit_eq_mod drop_bit_eq_div)
  finally have "unat (ucast (drop_bit k v) :: byte) =
      unat (of_nat (unat v div 2 ^ k mod 256) :: byte)"
    by (simp add: unat_of_nat)
  then show ?thesis by (rule word_unat_eq_iff[THEN iffD2])
qed

lemma le_value_append: "le_value (xs @ [b]) = le_value xs + 256 ^ length xs * unat b"
  by (induction xs) (simp_all add: algebra_simps)

lemma le_value_digits:
  "le_value (map (\<lambda>k. of_nat (n div 256 ^ k mod 256)) [0..<m]) = n mod 256 ^ m"
proof (induction m)
  case 0
  show ?case by simp
next
  case (Suc m)
  have "n mod (256 ^ m * 256) = 256 ^ m * (n div 256 ^ m mod 256) + n mod 256 ^ m"
    by (rule mod_mult2_eq)
  then have "n mod (256 * 256 ^ m) = n mod 256 ^ m + 256 ^ m * (n div 256 ^ m mod 256)"
    by (simp add: mult.commute)
  with Suc show ?case
    by (simp add: le_value_append unat_of_nat)
qed

lemma upt_0_8: "[0..<8] = [0, 1, 2, 3, 4, 5, 6, 7::nat]"
  by (simp add: upt_rec)

lemma uint64ToLEBytes_digits:
  "uint64ToLEBytes v = map (\<lambda>k. of_nat (unat v div 256 ^ k mod 256)) [0..<8]"
  using ucast_drop_bit_byte[of 0 v]
  by (simp add: uint64ToLEBytes_def upt_0_8 ucast_drop_bit_byte)

lemma uint64ToLEBytes_le_value: "le_value (uint64ToLEBytes v) = unat v"
proof -
  have "unat v < 256 ^ 8" using unsigned_less[of v] by simp
  then show ?thesis
    unfolding uint64ToLEBytes_digits le_value_digits by simp
qed

lemma transfer_payload_one_unit:
  "map mci_Data (vtm_Instructions
      (createTransactionMessage ix vaultPDA recipientPubkey 1000000000)) =
   [[2, 0, 0, 0, 0, 202, 154, 59, 0, 0, 0, 0]]"
  by (simp add: createTransactionMessage_def uint64ToLEBytes_def drop_bit_eq_div)

text \<open>
  Claim C9. The message built for a transfer of 1000000000 raw units has one
  instruction, whose payload is the opcode prefix 2,0,0,0 followed by the eight bytes
  0,202,154,59,0,0,0,0 (1000000000 is 0x3B9ACA00). For every 64-bit value,
  \<open>uint64ToLEBytes\<close> returns eight bytes, byte \<open>k\<close> is the \<open>k\<close>-th base-256 digit of
  the value, and reading the bytes back least significant first gives the value.
\<close>

theorem C9_transfer_payload_little_endian:
  "map mci_Data (vtm_Instructions
      (createTransactionMessage ix vaultPDA recipientPubkey 1000000000)) =
     [[2, 0, 0, 0] @ [0, 202, 154, 59, 0, 0, 0, 0]] \<and>
   mci_Data (hd (vtm_Instructions (createTransactionMessage ix vaultPDA recipientPubkey v))) =
     [2, 0, 0, 0] @ uint64ToLEBytes v \<and>
   length (uint64ToLEBytes v) = 8 \<and>
   uint64ToLEBytes v = map (\<lambda>k. of_nat (unat v div 256 ^ k mod 256)) [0..<8] \<and>
   le_value (uint64ToLEBytes v) = unat v"
proof -
  have "length (uint64ToLEBytes v) = 8"
    by (simp add: uint64ToLEBytes_def)
  moreover have "mci_Data (hd (vtm_Instructions
      (createTransactionMessage ix vaultPDA recipientPubkey v))) = [2, 0, 0, 0] @ uint64ToLEBytes v"
    by (simp add: createTransactionMessage_def)
  ultimately show ?thesis
    using transfer_payload_one_unit[of ix vaultPDA recipientPubkey]
      uint64ToLEBytes_digits[of v] uint64ToLEBytes_le_value[of v]
    by simp
qed

subsection \<open>Writable flags of the dynamic accounts\<close>

lemma additional_isWritable_iff:
  "additional_isWritable msg i \<longleftrightarrow>
     i < uint (vtm_NumWritableSigners msg) \<or>
     i < uint (vtm_NumSigners msg) + uint (vtm_NumWritableNonSigners msg)"
  by (auto simp: additional_isWritable_def)

lemma append_additional_eq:
  "append_additional msg i ks metas =
     metas @ map (\<lambda>(j, k). NewAccountMeta k (additional_isWritable msg (i + int j)) False)
               (zip [0..<length ks] ks)"
proof (induction ks arbitrary: i metas)
  case Nil
  show ?case by simp
next
  case (Cons k ks)
  have "zip [0..<length (k # ks)] (k # ks) =
        (0, k) # map (\<lambda>(j, x). (Suc j, x)) (zip [0..<length ks] ks)"
    by (simp add: upt_conv_Cons zip_map1 flip: map_Suc_upt del: upt_Suc)
  then show ?case
    by (simp add: Cons.IH split_def o_def add.assoc del: upt_Suc)
qed

text \<open>
  Every readonly-signer position, in every message, is given the writable flag by the
  loop and denied it by the partition counts.
\<close>

lemma readonly_signer_position_writable:
  assumes "uint (vtm_NumWritableSigners msg) \<le> i" and "i < uint (vtm_NumSigners msg)"
  shows "additional_isWritable msg i \<and> \<not> partition_writable msg i"
proof -
  have "0 \<le> uint (vtm_NumWritableNonSigners msg)" by simp
  with assms show ?thesis
    unfolding additional_isWritable_iff partition_writable_def by linarith
qed

text \<open>
  Claim C1. A stored message with two signers, of which one is writable, and one
  writable non-signer, over four account keys: position 1 is the readonly signer. The
  loop of \<open>ExecuteProposal\<close> appends it as writable, because the second test
  \<open>i - NumSigners < NumWritableNonSigners\<close> has no lower bound and holds for every
  index below \<open>NumSigners\<close>; the partition counts say it is not writable.
\<close>

theorem C1_readonly_signer_appended_writable:
  "map am_IsWritable (execute_AccountMetaSlice []
      \<lparr>vtm_NumSigners = 2, vtm_NumWritableSigners = 1, vtm_NumWritableNonSigners = 1,
       vtm_AccountKeys = [replicate 32 1, replicate 32 2, replicate 32 3, replicate 32 4],
       vtm_Instructions = [], vtm_AddressTableLookups = []\<rparr>) = [True, True, True, False] \<and>
   \<not> partition_writable
      \<lparr>vtm_NumSigners = 2, vtm_NumWritableSigners = 1, vtm_NumWritableNonSigners = 1,
       vtm_AccountKeys = [replicate 32 1, replicate 32 2, replicate 32 3, replicate 32 4],
       vtm_Instructions = [], vtm_AddressTableLookups = []\<rparr> 1"
  by (simp add: execute_AccountMetaSlice_def additional_isWritable_def NewAccountMeta_def
      partition_writable_def)

subsection \<open>Codec: encoding and decoding agree where the encoder succeeds\<close>

lemma ReadFull_exact: "ReadFull (length bs) (bs @ rest) = Inr (bs, rest)"
  by (cases bs) (simp_all add: ReadFull_def)

lemma Decode_uint8_Cons: "Decode_uint8 (b # rest) = Inr (b, rest)"
  by (simp add: Decode_uint8_def ReadFull_def and_then_def)

lemma uint16_bytes_roundtrip:
  "ucast (ucast w :: byte) OR push_bit 8 (ucast (ucast (drop_bit 8 w) :: byte)) = (w :: 16 word)"
  by (rule bit_word_eqI) (auto simp: bit_simps)

lemma Decode_uint16_Encode:
  "Decode_uint16 (ucast w # ucast (drop_bit 8 w) # rest) = Inr (w, rest)"
  by (simp add: Decode_uint16_def ReadFull_def and_then_def uint16_bytes_roundtrip)

lemma unat_of_nat_byte: "n \<le> 255 \<Longrightarrow> unat (of_nat n :: byte) = n"
  by (simp add: unat_of_nat)

lemma unat_of_nat_u16: "n \<le> 65535 \<Longrightarrow> unat (of_nat n :: 16 word) = n"
  by (simp add: unat_of_nat)

lemma encode_items_PublicKey: "encode_items Encode_PublicKey ks = Inr (concat ks)"
  by (induction ks) (simp_all add: Encode_PublicKey_def then_write_def)

lemma decode_items_PublicKey:
  "list_all (\<lambda>k. length k = 32) ks \<Longrightarrow>
   decode_items Decode_PublicKey (length ks) (concat ks @ rest) = Inr (ks, rest)"
proof (induction ks)
  case Nil
  show ?case by simp
next
  case (Cons k ks)
  then have "ReadFull 32 (k @ concat ks @ rest) = Inr (k, concat ks @ rest)"
    using ReadFull_exact[of k "concat ks @ rest"] by simp
  with Cons show ?case
    by (simp add: Decode_PublicKey_def and_then_def)
qed

lemma CompiledInstruction_EncodeWith_eq:
  "CompiledInstruction_EncodeWith ci = Inr (CompiledInstruction_bytes ci)"
  by (simp add: CompiledInstruction_EncodeWith_def CompiledInstruction_bytes_def then_write_def
      Encode_uint8_def Encode_uint16_def Encode_bytes_def)

lemma CompiledInstruction_roundtrip:
  assumes "length (ci_AccountIndexes ci) \<le> 255" "length (ci_Data ci) \<le> 65535"
  shows "CompiledInstruction_DecodeWith (CompiledInstruction_bytes ci @ rest) = Inr (ci, rest)"
  using assms
  by (simp add: CompiledInstruction_DecodeWith_def CompiledInstruction_bytes_def
      Decode_uint8_Cons Decode_uint16_Encode and_then_def Decode_bytes_def ReadFull_exact
      unat_of_nat_byte unat_of_nat_u16)

lemma encode_items_CompiledInstruction:
  "encode_items CompiledInstruction_EncodeWith cis =
     Inr (concat (map CompiledInstruction_bytes cis))"
  by (induction cis) (simp_all add: CompiledInstruction_EncodeWith_eq then_write_def)

lemma decode_items_CompiledInstruction:
  "list_all (\<lambda>ci. length (ci_AccountIndexes ci) \<le> 255 \<and> length (ci_Data ci) \<le> 65535) cis \<Longrightarrow>
   decode_items CompiledInstruction_DecodeWith (length cis)
     (concat (map CompiledInstruction_bytes cis) @ rest) = Inr (cis, rest)"
  by (induction cis) (simp_all add: CompiledInstruction_roundtrip and_then_def)

lemma encode_lookups_fails:
  "ls \<noteq> [] \<Longrightarrow> encode_items MessageAddressTableLookup_EncodeWith ls =
     Inl (UnsupportedType ''*solana.PublicKey'')"
  by (cases ls) (simp_all add: MessageAddressTableLookup_EncodeWith_def
      Encode_PublicKey_pointer_def then_write_def)

text \<open>Every message that carries an address-table lookup fails to encode.\<close>

lemma EncodeWith_lookups_fails:
  "tm_AddressTableLookups tm \<noteq> [] \<Longrightarrow>
   TransactionMessage_EncodeWith tm = Inl (UnsupportedType ''*solana.PublicKey'')"
  by (simp add: TransactionMessage_EncodeWith_def Encode_SmallVec_PublicKey_def
      Encode_SmallVec_CompiledInstruction_def Encode_SmallVec_MessageAddressTableLookup_def
      encode_items_PublicKey encode_items_CompiledInstruction encode_lookups_fails
      Encode_uint8_def then_write_def)

text \<open>
  Without lookups the round trip holds: the message encodes, and decoding the bytes
  (whatever follows them) gives the message back and leaves what follows.
\<close>

lemma roundtrip_without_lookups:
  assumes "fits_length_prefixes tm" and "tm_AddressTableLookups tm = []"
  shows "\<exists>bs. TransactionMessage_EncodeWith tm = Inr bs \<and>
           (\<forall>rest. TransactionMessage_DecodeWith (bs @ rest) = Inr (tm, rest))"
proof -
  let ?bs = "[tm_NumSigners tm, tm_NumWritableSigners tm, tm_NumWritableNonSigners tm,
             of_nat (length (tm_AccountKeys tm))] @ concat (tm_AccountKeys tm) @
            of_nat (length (tm_Instructions tm)) #
            concat (map CompiledInstruction_bytes (tm_Instructions tm)) @ [0]"
  have enc: "TransactionMessage_EncodeWith tm = Inr ?bs"
    using assms(2)
    by (simp add: TransactionMessage_EncodeWith_def Encode_SmallVec_PublicKey_def
      Encode_SmallVec_CompiledInstruction_def Encode_SmallVec_MessageAddressTableLookup_def
      encode_items_PublicKey encode_items_CompiledInstruction
      Encode_uint8_def then_write_def)
  have dec: "TransactionMessage_DecodeWith (?bs @ rest) = Inr (tm, rest)" for rest
    using assms
    by (simp add: TransactionMessage_DecodeWith_def Decode_SmallVec_def Decode_uint8_Cons
        and_then_def fits_length_prefixes_def unat_of_nat_byte decode_items_PublicKey
        decode_items_CompiledInstruction)
  from enc dec show ?thesis by blast
qed

text \<open>
  Claim C5. A message within all the length bounds of the claim, with one account key,
  no instruction and one address-table lookup: \<open>EncodeWith\<close> returns the error
  \<open>unsupported type: *solana.PublicKey\<close> and produces no encoding to decode, so the
  round trip of the claim does not exist for it.
\<close>

theorem C5_encode_fails_with_lookup:
  "fits_length_prefixes
     \<lparr>tm_NumSigners = 1, tm_NumWritableSigners = 1, tm_NumWritableNonSigners = 0,
      tm_AccountKeys = [replicate 32 7], tm_Instructions = [],
      tm_AddressTableLookups =
        [\<lparr>atl_AccountKey = replicate 32 9, atl_WritableIndexes = [0],
          atl_ReadonlyIndexes = []\<rparr>]\<rparr> \<and>
   TransactionMessage_EncodeWith
     \<lparr>tm_NumSigners = 1, tm_NumWritableSigners = 1, tm_NumWritableNonSigners = 0,
      tm_AccountKeys = [replicate 32 7], tm_Instructions = [],
      tm_AddressTableLookups =
        [\<lparr>atl_AccountKey = replicate 32 9, atl_WritableIndexes = [0],
          atl_ReadonlyIndexes = []\<rparr>]\<rparr> = Inl (UnsupportedType ''*solana.PublicKey'')"
  by (simp add: fits_length_prefixes_def TransactionMessage_EncodeWith_def
      Encode_SmallVec_PublicKey_def Encode_SmallVec_CompiledInstruction_def
      Encode_SmallVec_MessageAddressTableLookup_def MessageAddressTableLookup_EncodeWith_def
      Encode_uint8_def Encode_PublicKey_def Encode_PublicKey_pointer_def then_write_def)

subsection \<open>Codec: truncated input\<close>

lemma extends_ReadFull: "extends (ReadFull n)"
  by (auto simp: extends_def ReadFull_def split: if_splits)

lemma extends_and_then:
  assumes "extends f" and "\<And>v. extends (g v)"
  shows "extends (\<lambda>r. and_then (f r) g)"
  using assms unfolding extends_def and_then_def
  by (auto split: sum.splits prod.splits)

lemma extends_return: "extends (\<lambda>r. Inr (c, r))"
  by (simp add: extends_def)

lemma extends_Decode_uint8: "extends Decode_uint8"
  unfolding Decode_uint8_def by (intro extends_and_then extends_ReadFull extends_return)

lemma extends_Decode_uint16: "extends Decode_uint16"
  unfolding Decode_uint16_def by (intro extends_and_then extends_ReadFull extends_return)

lemma extends_decode_items: "extends f \<Longrightarrow> extends (decode_items f n)"
proof (induction n)
  case 0
  show ?case by (simp add: extends_def)
next
  case (Suc n)
  have "extends (\<lambda>r. and_then (f r) (\<lambda>item r'.
     and_then (decode_items f n r') (\<lambda>items r''. Inr (item # items, r''))))"
    by (intro extends_and_then extends_return Suc)
  then show ?case by (simp add: extends_def)
qed

lemma extends_Decode_SmallVec: "extends f \<Longrightarrow> extends (Decode_SmallVec f)"
  unfolding Decode_SmallVec_def
  by (intro extends_and_then extends_Decode_uint8 extends_decode_items)

lemma extends_CompiledInstruction: "extends CompiledInstruction_DecodeWith"
  unfolding CompiledInstruction_DecodeWith_def Decode_bytes_def
  by (intro extends_and_then extends_Decode_uint8 extends_Decode_uint16 extends_ReadFull
      extends_return)

lemma extends_MessageAddressTableLookup: "extends MessageAddressTableLookup_DecodeWith"
  unfolding MessageAddressTableLookup_DecodeWith_def Decode_bytes_def Decode_PublicKey_def
  by (intro extends_and_then extends_Decode_uint8 extends_ReadFull extends_return)

lemma extends_TransactionMessage: "extends TransactionMessage_DecodeWith"
  unfolding TransactionMessage_DecodeWith_def
  by (intro extends_and_then extends_Decode_uint8 extends_Decode_SmallVec extends_return
      extends_CompiledInstruction extends_MessageAddressTableLookup)
     (simp add: Decode_PublicKey_def[abs_def] extends_ReadFull)

lemma encoded_message_decodes:
  assumes "TransactionMessage_EncodeWith tm = Inr full" and "fits_length_prefixes tm"
  shows "TransactionMessage_DecodeWith full = Inr (tm, [])"
proof -
  from assms(1) have "tm_AddressTableLookups tm = []"
    using EncodeWith_lookups_fails[of tm] by (cases "tm_AddressTableLookups tm") simp_all
  from roundtrip_without_lookups[OF assms(2) this] obtain bs
    where "TransactionMessage_EncodeWith tm = Inr bs"
      and "\<forall>rest. TransactionMessage_DecodeWith (bs @ rest) = Inr (tm, rest)"
    by blast
  with assms(1) show ?thesis by (metis Inr_inject append_Nil2)
qed

text \<open>
  Claim C8. Let \<open>full\<close> be a valid encoded message: the bytes that \<open>EncodeWith\<close>
  returns for a message within the length bounds, or any bytes that the decoder
  accepts and consumes to the end. Then the decoder returns an error on every strict
  prefix of \<open>full\<close>, so it succeeds only when the whole encoding is there. The decoder
  is a total function that reads through \<open>io.ReadFull\<close> only, so an error value is the
  only other outcome: there is no index into the input.
\<close>

theorem C8_truncated_input_is_an_error:
  assumes "TransactionMessage_EncodeWith tm = Inr full \<and> fits_length_prefixes tm \<or>
           TransactionMessage_DecodeWith full = Inr (tm, [])"
    and "strict_prefix p full"
  shows "\<exists>e. TransactionMessage_DecodeWith p = Inl e"
proof (cases "TransactionMessage_DecodeWith p")
  case (Inl e)
  then show ?thesis by blast
next
  case (Inr res)
  obtain tm' r where res: "res = (tm', r)" by (cases res)
  from assms(1) have full: "TransactionMessage_DecodeWith full = Inr (tm, [])"
    using encoded_message_decodes by blast
  from assms(2) obtain s where s: "full = p @ s" "s \<noteq> []"
    by (auto simp: strict_prefix_def prefix_def)
  from extends_TransactionMessage Inr res
  have "TransactionMessage_DecodeWith (p @ s) = Inr (tm', r @ s)"
    by (simp add: extends_def)
  with full s show ?thesis by simp
qed

lemma encode_test_message:
  "TransactionMessage_EncodeWith
     \<lparr>tm_NumSigners = 1, tm_NumWritableSigners = 2, tm_NumWritableNonSigners = 3,
      tm_AccountKeys = [replicate 32 7],
      tm_Instructions = [\<lparr>ci_ProgramIdIndex = 1, ci_AccountIndexes = [1, 2, 3],
                          ci_Data = [1, 2, 3, 4]\<rparr>],
      tm_AddressTableLookups = []\<rparr> =
   Inr ([1, 2, 3, 1] @ replicate 32 7 @ [1, 1, 3, 1, 2, 3, 4, 0, 1, 2, 3, 4, 0])"
  by (simp add: TransactionMessage_EncodeWith_def Encode_SmallVec_PublicKey_def
      Encode_SmallVec_CompiledInstruction_def Encode_SmallVec_MessageAddressTableLookup_def
      CompiledInstruction_EncodeWith_def Encode_uint8_def Encode_uint16_def Encode_bytes_def
      Encode_PublicKey_def then_write_def)

lemma fits_test_message:
  "fits_length_prefixes
     \<lparr>tm_NumSigners = 1, tm_NumWritableSigners = 2, tm_NumWritableNonSigners = 3,
      tm_AccountKeys = [replicate 32 7],
      tm_Instructions = [\<lparr>ci_ProgramIdIndex = 1, ci_AccountIndexes = [1, 2, 3],
                          ci_Data = [1, 2, 3, 4]\<rparr>],
      tm_AddressTableLookups = []\<rparr>"
  by (simp add: fits_length_prefixes_def)

lemma decode_test_message:
  "TransactionMessage_DecodeWith
     ([1, 2, 3, 1] @ replicate 32 7 @ [1, 1, 3, 1, 2, 3, 4, 0, 1, 2, 3, 4, 0]) =
   Inr (\<lparr>tm_NumSigners = 1, tm_NumWritableSigners = 2, tm_NumWritableNonSigners = 3,
         tm_AccountKeys = [replicate 32 7],
         tm_Instructions = [\<lparr>ci_ProgramIdIndex = 1, ci_AccountIndexes = [1, 2, 3],
                             ci_Data = [1, 2, 3, 4]\<rparr>],
         tm_AddressTableLookups = []\<rparr>, [])"
  by (simp add: TransactionMessage_DecodeWith_def Decode_SmallVec_def
      CompiledInstruction_DecodeWith_def Decode_uint8_def Decode_uint16_def Decode_bytes_def
      Decode_PublicKey_def ReadFull_def and_then_def)

lemma strict_prefix_test_message:
  "strict_prefix ([1, 2, 3, 1] @ replicate 32 7 @ [1, 1, 3, 1, 2, 3, 4, 0, 1, 2])
     ([1, 2, 3, 1] @ replicate 32 (7::byte) @ [1, 1, 3, 1, 2, 3, 4, 0, 1, 2, 3, 4, 0])"
  by (simp add: strict_prefix_def)

theorem C8_truncated_input_is_an_error_witness:
  "TransactionMessage_EncodeWith
     \<lparr>tm_NumSigners = 1, tm_NumWritableSigners = 2, tm_NumWritableNonSigners = 3,
      tm_AccountKeys = [replicate 32 7],
      tm_Instructions = [\<lparr>ci_ProgramIdIndex = 1, ci_AccountIndexes = [1, 2, 3],
                          ci_Data = [1, 2, 3, 4]\<rparr>],
      tm_AddressTableLookups = []\<rparr> =
     Inr ([1, 2, 3, 1] @ replicate 32 7 @ [1, 1, 3, 1, 2, 3, 4, 0, 1, 2, 3, 4, 0]) \<and>
   TransactionMessage_DecodeWith
     ([1, 2, 3, 1] @ replicate 32 7 @ [1, 1, 3, 1, 2, 3, 4, 0, 1, 2, 3, 4, 0]) =
   Inr (\<lparr>tm_NumSigners = 1, tm_NumWritableSigners = 2, tm_NumWritableNonSigners = 3,
         tm_AccountKeys = [replicate 32 7],
         tm_Instructions = [\<lparr>ci_ProgramIdIndex = 1, ci_AccountIndexes = [1, 2, 3],
                             ci_Data = [1, 2, 3, 4]\<rparr>],
         tm_AddressTableLookups = []\<rparr>, []) \<and>
   strict_prefix ([1, 2, 3, 1] @ replicate 32 7 @ [1, 1, 3, 1, 2, 3, 4, 0, 1, 2])
     ([1, 2, 3, 1] @ replicate 32 (7::byte) @ [1, 1, 3, 1, 2, 3, 4, 0, 1, 2, 3, 4, 0]) \<and>
   (\<exists>e. TransactionMessage_DecodeWith
          ([1, 2, 3, 1] @ replicate 32 7 @ [1, 1, 3, 1, 2, 3, 4, 0, 1, 2]) = Inl e)"
  using C8_truncated_input_is_an_error
      [OF disjI1 [OF conjI [OF encode_test_message fits_test_message]] strict_prefix_test_message]
    encode_test_message decode_test_message strict_prefix_test_message
  by blast

subsection \<open>What the resolver computes\<close>

lemma meta_update_flags:
  "meta\<lparr>ckm_IsSigner := x, ckm_IsWritable := y\<rparr> =
   \<lparr>ckm_IsSigner = x, ckm_IsWritable = y, ckm_IsInvoked = ckm_IsInvoked meta\<rparr>"
  by (cases meta) simp

lemma meta_update_invoked:
  "meta\<lparr>ckm_IsInvoked := x\<rparr> =
   \<lparr>ckm_IsSigner = ckm_IsSigner meta, ckm_IsWritable = ckm_IsWritable meta, ckm_IsInvoked = x\<rparr>"
  by (cases meta) simp

lemma compile_accounts_Cons:
  "compile_accounts m (am # rest) =
     compile_accounts (m(am_PublicKey am \<mapsto>
       \<lparr>ckm_IsSigner = ckm_IsSigner (entry_flags m (am_PublicKey am)) \<or> am_IsSigner am,
        ckm_IsWritable = ckm_IsWritable (entry_flags m (am_PublicKey am)) \<or> am_IsWritable am,
        ckm_IsInvoked = ckm_IsInvoked (entry_flags m (am_PublicKey am))\<rparr>)) rest"
  by (cases "m (am_PublicKey am)")
     (simp_all add: getOrInsertDefault_def entry_flags_def meta_update_flags)

lemma compile_accounts_apply:
  "compile_accounts m ams k =
     (if k \<in> am_PublicKey ` set ams then
        Some \<lparr>ckm_IsSigner = ckm_IsSigner (entry_flags m k) \<or>
                (\<exists>am\<in>set ams. am_PublicKey am = k \<and> am_IsSigner am),
              ckm_IsWritable = ckm_IsWritable (entry_flags m k) \<or>
                (\<exists>am\<in>set ams. am_PublicKey am = k \<and> am_IsWritable am),
              ckm_IsInvoked = ckm_IsInvoked (entry_flags m k)\<rparr>
      else m k)"
proof (induction ams arbitrary: m)
  case Nil
  show ?case by simp
next
  case (Cons am ams)
  show ?case
  proof (cases "k = am_PublicKey am")
    case True
    then show ?thesis
      unfolding compile_accounts_Cons Cons.IH
      by (auto simp: entry_flags_def image_iff)
  next
    case False
    then show ?thesis
      unfolding compile_accounts_Cons Cons.IH
      by (auto simp: entry_flags_def)
  qed
qed


lemma dom_compile_accounts:
  "dom (compile_accounts m ams) = dom m \<union> am_PublicKey ` set ams"
  by (auto simp: compile_accounts_apply dom_def split: if_splits)

lemma meta_eta:
  "\<lparr>ckm_IsSigner = ckm_IsSigner e, ckm_IsWritable = ckm_IsWritable e,
    ckm_IsInvoked = ckm_IsInvoked e\<rparr> = e"
  by (cases e) simp

lemma entry_flags_compile_accounts:
  "entry_flags (compile_accounts m ams) k =
     \<lparr>ckm_IsSigner = ckm_IsSigner (entry_flags m k) \<or>
        (\<exists>am\<in>set ams. am_PublicKey am = k \<and> am_IsSigner am),
      ckm_IsWritable = ckm_IsWritable (entry_flags m k) \<or>
        (\<exists>am\<in>set ams. am_PublicKey am = k \<and> am_IsWritable am),
      ckm_IsInvoked = ckm_IsInvoked (entry_flags m k)\<rparr>"
proof (cases "k \<in> am_PublicKey ` set ams")
  case True
  then show ?thesis
    by (subst entry_flags_def) (simp add: compile_accounts_apply)
next
  case False
  then have "entry_flags (compile_accounts m ams) k = entry_flags m k"
    by (simp add: entry_flags_def compile_accounts_apply)
  moreover from False have "\<not> (\<exists>am\<in>set ams. am_PublicKey am = k \<and> am_IsSigner am)"
    "\<not> (\<exists>am\<in>set ams. am_PublicKey am = k \<and> am_IsWritable am)"
    by auto
  ultimately show ?thesis by (cases "entry_flags m k") auto
qed

lemma entry_flags_program:
  "entry_flags (m(p \<mapsto> (entry_flags m p)\<lparr>ckm_IsInvoked := False\<rparr>)) k =
     \<lparr>ckm_IsSigner = ckm_IsSigner (entry_flags m k),
      ckm_IsWritable = ckm_IsWritable (entry_flags m k),
      ckm_IsInvoked = (ckm_IsInvoked (entry_flags m k) \<and> k \<noteq> p)\<rparr>"
proof (cases "k = p")
  case True
  then show ?thesis by (subst entry_flags_def) (simp add: meta_update_invoked)
next
  case False
  then have "entry_flags (m(p \<mapsto> (entry_flags m p)\<lparr>ckm_IsInvoked := False\<rparr>)) k = entry_flags m k"
    by (simp add: entry_flags_def)
  with False show ?thesis by (simp add: meta_eta)
qed

lemma compile_instruction_keys_Cons:
  "compile_instruction_keys m (ix # rest) =
     compile_instruction_keys
       (compile_accounts
          (m(ix_ProgramID ix \<mapsto> (entry_flags m (ix_ProgramID ix))\<lparr>ckm_IsInvoked := False\<rparr>))
          (ix_Accounts ix)) rest"
  by (cases "m (ix_ProgramID ix)") (simp_all add: getOrInsertDefault_def entry_flags_def)

lemma dom_compile_instruction_keys:
  "dom (compile_instruction_keys m ixs) = dom m \<union> instruction_keys ixs"
proof (induction ixs arbitrary: m)
  case Nil
  show ?case by (simp add: instruction_keys_def)
next
  case (Cons ix ixs)
  show ?case
    unfolding compile_instruction_keys_Cons Cons.IH dom_compile_accounts
    by (auto simp: instruction_keys_def)
qed

lemma entry_flags_compile_instruction_keys:
  "entry_flags (compile_instruction_keys m ixs) k =
     \<lparr>ckm_IsSigner = ckm_IsSigner (entry_flags m k) \<or>
        (\<exists>ix\<in>set ixs. \<exists>am\<in>set (ix_Accounts ix). am_PublicKey am = k \<and> am_IsSigner am),
      ckm_IsWritable = ckm_IsWritable (entry_flags m k) \<or>
        (\<exists>ix\<in>set ixs. \<exists>am\<in>set (ix_Accounts ix). am_PublicKey am = k \<and> am_IsWritable am),
      ckm_IsInvoked = (ckm_IsInvoked (entry_flags m k) \<and> k \<notin> ix_ProgramID ` set ixs)\<rparr>"
proof (induction ixs arbitrary: m)
  case Nil
  show ?case by (simp add: meta_eta)
next
  case (Cons ix ixs)
  show ?case
    unfolding compile_instruction_keys_Cons Cons.IH entry_flags_compile_accounts entry_flags_program
    by auto
qed

lemma map_entry: "m k = (if k \<in> dom m then Some (entry_flags m k) else None)"
  by (auto simp: entry_flags_def)

lemma CompileKeys_apply:
  "ck_KeyMetaMap (CompileKeys ixs payer) k =
     (if k = payer \<or> k \<in> instruction_keys ixs then
        Some \<lparr>ckm_IsSigner = (k = payer \<or>
                (\<exists>ix\<in>set ixs. \<exists>am\<in>set (ix_Accounts ix). am_PublicKey am = k \<and> am_IsSigner am)),
              ckm_IsWritable = (k = payer \<or>
                (\<exists>ix\<in>set ixs. \<exists>am\<in>set (ix_Accounts ix). am_PublicKey am = k \<and> am_IsWritable am)),
              ckm_IsInvoked = False\<rparr>
      else None)"
proof -
  let ?m0 = "Map.empty(payer \<mapsto> \<lparr>ckm_IsSigner = True, ckm_IsWritable = True, ckm_IsInvoked = False\<rparr>)"
  have ck: "ck_KeyMetaMap (CompileKeys ixs payer) = compile_instruction_keys ?m0 ixs"
    by (simp add: CompileKeys_def NewCompiledKeys_def getOrInsertDefault_def)
  have ef0: "entry_flags ?m0 k =
     \<lparr>ckm_IsSigner = (k = payer), ckm_IsWritable = (k = payer), ckm_IsInvoked = False\<rparr>"
    by (simp add: entry_flags_def)
  show ?thesis
    unfolding ck
    by (subst map_entry)
       (simp add: dom_compile_instruction_keys entry_flags_compile_instruction_keys ef0)
qed

lemmas key_defs = payer_key_def vault_key_def recipient_key_def SystemProgramID_def

lemma transfer_keys:
  "ck_KeyMetaMap (CompileKeys [transfer_instruction lamports] payer_key) =
     [payer_key \<mapsto> \<lparr>ckm_IsSigner = True, ckm_IsWritable = True, ckm_IsInvoked = False\<rparr>,
      SystemProgramID \<mapsto> \<lparr>ckm_IsSigner = False, ckm_IsWritable = False, ckm_IsInvoked = False\<rparr>,
      vault_key \<mapsto> \<lparr>ckm_IsSigner = True, ckm_IsWritable = True, ckm_IsInvoked = False\<rparr>,
      recipient_key \<mapsto> \<lparr>ckm_IsSigner = False, ckm_IsWritable = True, ckm_IsInvoked = False\<rparr>]"
  by (simp add: CompileKeys_def NewCompiledKeys_def getOrInsertDefault_def
      transfer_instruction_def NewAccountMeta_def key_defs)

lemma transfer_dom:
  "dom (ck_KeyMetaMap (CompileKeys [transfer_instruction lamports] payer_key)) =
   {payer_key, vault_key, recipient_key, SystemProgramID}"
  unfolding transfer_keys by auto

text \<open>
  Claim C4, as amended. In the map that \<open>CompileKeys\<close> returns, the addresses with an
  entry are the fee payer, the program of every instruction and every listed account.
  The signer flag of an entry is true exactly when the address is the fee payer or
  some occurrence of it among the listed accounts of some instruction is a signer;
  the writable flag likewise; so the fee payer is signer and writable, a flag seen true
  once stays true, and being the program of an instruction forces neither flag. The
  invoked flag of every entry, the programs' included, is false: \<open>CompileKeys\<close> assigns
  \<open>false\<close> to it and never \<open>true\<close>. An address that the map does not hold is first
  inserted with all three flags false.
\<close>

theorem C4_resolved_flags:
  "ck_KeyMetaMap (CompileKeys ixs payer) k =
     (if k = payer \<or> k \<in> instruction_keys ixs then
        Some \<lparr>ckm_IsSigner = (k = payer \<or>
                (\<exists>ix\<in>set ixs. \<exists>am\<in>set (ix_Accounts ix). am_PublicKey am = k \<and> am_IsSigner am)),
              ckm_IsWritable = (k = payer \<or>
                (\<exists>ix\<in>set ixs. \<exists>am\<in>set (ix_Accounts ix). am_PublicKey am = k \<and> am_IsWritable am)),
              ckm_IsInvoked = False\<rparr>
      else None) \<and>
   getOrInsertDefault (m(k := None)) k =
     (\<lparr>ckm_IsSigner = False, ckm_IsWritable = False, ckm_IsInvoked = False\<rparr>,
      m(k \<mapsto> \<lparr>ckm_IsSigner = False, ckm_IsWritable = False, ckm_IsInvoked = False\<rparr>))"
proof -
  have "getOrInsertDefault (m(k := None)) k =
     (\<lparr>ckm_IsSigner = False, ckm_IsWritable = False, ckm_IsInvoked = False\<rparr>,
      m(k \<mapsto> \<lparr>ckm_IsSigner = False, ckm_IsWritable = False, ckm_IsInvoked = False\<rparr>))"
    by (simp add: getOrInsertDefault_def)
  with CompileKeys_apply[of ixs payer k] show ?thesis by simp
qed

text \<open>
  Claim C4 as stated fails on the invoked flag. Resolving the single system transfer
  of 1000000000 raw units with \<open>payer_key\<close> as fee payer: \<open>SystemProgramID\<close> is the
  program of the instruction, and its entry has \<open>IsInvoked = false\<close>.
\<close>

theorem C4_program_entry_not_invoked_counterexample:
  "ix_ProgramID (transfer_instruction 1000000000) = SystemProgramID \<and>
   ck_KeyMetaMap (CompileKeys [transfer_instruction 1000000000] payer_key) SystemProgramID =
     Some \<lparr>ckm_IsSigner = False, ckm_IsWritable = False, ckm_IsInvoked = False\<rparr> \<and>
   \<not> ckm_IsInvoked
       (entry_flags (ck_KeyMetaMap (CompileKeys [transfer_instruction 1000000000] payer_key))
          SystemProgramID)"
  by (simp add: transfer_keys entry_flags_def) (simp add: key_defs transfer_instruction_def)

subsection \<open>The four buckets\<close>

lemma bucket_loop_eq:
  "bucket_loop m order (a, b, c, d) =
     (a @ bucket m True True order, b @ bucket m True False order,
      c @ bucket m False True order, d @ bucket m False False order)"
proof (induction order arbitrary: a b c d)
  case Nil
  show ?case by (simp add: bucket_def)
next
  case (Cons k ks)
  show ?case
  proof (cases "m k")
    case None
    then show ?thesis by (simp add: Cons.IH) (simp add: bucket_def)
  next
    case (Some meta)
    then show ?thesis by (simp add: Cons.IH) (auto simp add: bucket_def)
  qed
qed

lemma GetMessageComponents_eq:
  "GetMessageComponents ck order =
     (\<lparr>NumRequiredSignatures =
          of_nat (length (bucket (ck_KeyMetaMap ck) True True order) +
                  length (bucket (ck_KeyMetaMap ck) True False order)),
       NumReadonlySignedAccounts = of_nat (length (bucket (ck_KeyMetaMap ck) True False order)),
       NumReadonlyUnsignedAccounts = of_nat (length (bucket (ck_KeyMetaMap ck) False False order))\<rparr>,
      bucket (ck_KeyMetaMap ck) True True order @ bucket (ck_KeyMetaMap ck) True False order @
      bucket (ck_KeyMetaMap ck) False True order @ bucket (ck_KeyMetaMap ck) False False order)"
  by (simp add: GetMessageComponents_def bucket_loop_eq)

lemma buckets_partition:
  assumes "range_of m order"
  shows "distinct (bucket m True True order @ bucket m True False order @
     bucket m False True order @ bucket m False False order) \<and>
     set (bucket m True True order @ bucket m True False order @
     bucket m False True order @ bucket m False False order) = dom m"
  using assms unfolding range_of_def bucket_def
  by (auto split: option.splits)

text \<open>
  Claim C6, as amended. For every metadata map and every order in which the range
  visits it, the static account list is the writable-signer bucket, then the
  readonly-signer bucket, then the writable-non-signer bucket, then the
  readonly-non-signer bucket; the three header counts are the sizes of the buckets
  they name, reduced modulo 256 by the conversion to \<open>uint8\<close>.
\<close>

theorem C6_static_keys_are_the_buckets:
  "snd (GetMessageComponents ck order) =
     bucket (ck_KeyMetaMap ck) True True order @ bucket (ck_KeyMetaMap ck) True False order @
     bucket (ck_KeyMetaMap ck) False True order @ bucket (ck_KeyMetaMap ck) False False order \<and>
   unat (NumRequiredSignatures (fst (GetMessageComponents ck order))) =
     (length (bucket (ck_KeyMetaMap ck) True True order) +
      length (bucket (ck_KeyMetaMap ck) True False order)) mod 256 \<and>
   unat (NumReadonlySignedAccounts (fst (GetMessageComponents ck order))) =
     length (bucket (ck_KeyMetaMap ck) True False order) mod 256 \<and>
   unat (NumReadonlyUnsignedAccounts (fst (GetMessageComponents ck order))) =
     length (bucket (ck_KeyMetaMap ck) False False order) mod 256"
  by (simp add: GetMessageComponents_eq unat_of_nat del: of_nat_add)

lemma numbered_key_eq_iff:
  "n < 256 \<Longrightarrow> n' < 256 \<Longrightarrow> numbered_key n = numbered_key n' \<longleftrightarrow> n = n'"
  by (simp add: numbered_key_def word_of_nat_eq_iff take_bit_eq_mod)

lemma numbered_key_not_system: "numbered_key n \<noteq> SystemProgramID"
proof
  assume "numbered_key n = SystemProgramID"
  then have "hd (numbered_key n) = hd SystemProgramID" by simp
  then show False by (simp add: numbered_key_def SystemProgramID_def)
qed

lemma many_signers_entry:
  assumes "n < 256"
  shows "ck_KeyMetaMap (CompileKeys [many_signers_instruction] (numbered_key 0)) (numbered_key n) =
     Some \<lparr>ckm_IsSigner = True, ckm_IsWritable = True, ckm_IsInvoked = False\<rparr>"
proof (cases "n = 0")
  case True
  then show ?thesis by (simp add: CompileKeys_apply)
next
  case False
  with assms have mem: "NewAccountMeta (numbered_key n) True True \<in> set (ix_Accounts many_signers_instruction)"
    by (simp add: many_signers_instruction_def)
  have k: "am_PublicKey (NewAccountMeta (numbered_key n) True True) = numbered_key n"
    "am_IsSigner (NewAccountMeta (numbered_key n) True True)"
    "am_IsWritable (NewAccountMeta (numbered_key n) True True)"
    by (simp_all add: NewAccountMeta_def)
  from mem k have s: "\<exists>am\<in>set (ix_Accounts many_signers_instruction). am_PublicKey am = numbered_key n \<and> am_IsSigner am"
    and w: "\<exists>am\<in>set (ix_Accounts many_signers_instruction). am_PublicKey am = numbered_key n \<and> am_IsWritable am"
    by blast+
  from mem k have "numbered_key n \<in> instruction_keys [many_signers_instruction]"
    unfolding instruction_keys_def by force
  with s w show ?thesis by (simp add: CompileKeys_apply)
qed

lemma many_signers_system_entry:
  "ck_KeyMetaMap (CompileKeys [many_signers_instruction] (numbered_key 0)) SystemProgramID =
     Some \<lparr>ckm_IsSigner = False, ckm_IsWritable = False, ckm_IsInvoked = False\<rparr>"
proof -
  have "SystemProgramID \<in> instruction_keys [many_signers_instruction]"
    by (simp add: instruction_keys_def many_signers_instruction_def)
  moreover have "\<not> (\<exists>am\<in>set (ix_Accounts many_signers_instruction). am_PublicKey am = SystemProgramID \<and> am_IsSigner am)"
    "\<not> (\<exists>am\<in>set (ix_Accounts many_signers_instruction). am_PublicKey am = SystemProgramID \<and> am_IsWritable am)"
    using numbered_key_not_system by (auto simp: many_signers_instruction_def NewAccountMeta_def)
  ultimately show ?thesis
    using numbered_key_not_system[of 0] by (simp add: CompileKeys_apply)
qed

lemma many_signers_dom:
  "dom (ck_KeyMetaMap (CompileKeys [many_signers_instruction] (numbered_key 0))) = set many_signers_order"
proof -
  have "instruction_keys [many_signers_instruction] = insert SystemProgramID (numbered_key ` {1..<256})"
    by (auto simp: instruction_keys_def many_signers_instruction_def NewAccountMeta_def image_image)
  moreover have "insert (numbered_key 0) (numbered_key ` {1..<256}) = numbered_key ` {0..<256}"
    by (auto simp: image_iff Bex_def) (metis not_gr_zero One_nat_def Suc_leI)
  ultimately show ?thesis
    by (auto simp: dom_def CompileKeys_apply many_signers_order_def split: if_splits)
qed

lemma many_signers_range:
  "range_of (ck_KeyMetaMap (CompileKeys [many_signers_instruction] (numbered_key 0))) many_signers_order"
proof -
  have "inj_on numbered_key {0..<256}"
    by (rule inj_onI) (simp add: numbered_key_eq_iff)
  moreover have "SystemProgramID \<notin> numbered_key ` {0..<256}"
    using numbered_key_not_system by (metis imageE)
  ultimately have "distinct many_signers_order"
    by (simp add: many_signers_order_def distinct_map)
  then show ?thesis by (simp add: range_of_def many_signers_dom)
qed

lemma many_signers_buckets:
  "bucket (ck_KeyMetaMap (CompileKeys [many_signers_instruction] (numbered_key 0))) True True
     many_signers_order = map numbered_key [0..<256]"
  "bucket (ck_KeyMetaMap (CompileKeys [many_signers_instruction] (numbered_key 0))) True False
     many_signers_order = []"
  "bucket (ck_KeyMetaMap (CompileKeys [many_signers_instruction] (numbered_key 0))) False False
     many_signers_order = [SystemProgramID]"
  by (simp_all add: bucket_def many_signers_order_def many_signers_system_entry filter_map o_def
      many_signers_entry cong: filter_cong map_cong)

text \<open>
  Claim C6 as stated fails on a resolved map with 256 writable signers (the fee payer
  \<open>numbered_key 0\<close> and the 255 signers of \<open>many_signers_instruction\<close>): the
  writable-signer bucket has 256 addresses and the readonly-signer bucket none, and
  \<open>NumRequiredSignatures\<close> is 0.
\<close>

theorem C6_count_wraps_counterexample:
  "unat (NumRequiredSignatures (fst (GetMessageComponents
       (CompileKeys [many_signers_instruction] (numbered_key 0)) many_signers_order))) \<noteq>
   length (bucket (ck_KeyMetaMap (CompileKeys [many_signers_instruction] (numbered_key 0)))
             True True many_signers_order) +
   length (bucket (ck_KeyMetaMap (CompileKeys [many_signers_instruction] (numbered_key 0)))
             True False many_signers_order) \<and>
   range_of (ck_KeyMetaMap (CompileKeys [many_signers_instruction] (numbered_key 0)))
     many_signers_order \<and>
   length (bucket (ck_KeyMetaMap (CompileKeys [many_signers_instruction] (numbered_key 0)))
             True True many_signers_order) = 256 \<and>
   NumRequiredSignatures (fst (GetMessageComponents
       (CompileKeys [many_signers_instruction] (numbered_key 0)) many_signers_order)) = 0"
  using many_signers_range
  by (simp add: GetMessageComponents_eq many_signers_buckets)

subsection \<open>Two runs of the compiler\<close>

lemma compile_transfer_payer_first:
  "CompileToWrappedMessageV0
       (\<lambda>m. [payer_key, vault_key, recipient_key, SystemProgramID])
       payer_key blockhash [transfer_instruction lamports] [] =
     \<lparr>msg_Header = \<lparr>NumRequiredSignatures = 2, NumReadonlySignedAccounts = 0,
                    NumReadonlyUnsignedAccounts = 1\<rparr>,
      msg_AccountKeys = [payer_key, vault_key, recipient_key, SystemProgramID],
      msg_RecentBlockhash = blockhash,
      msg_Instructions = [\<lparr>sci_ProgramIDIndex = 3, sci_Accounts = [1, 2],
                           sci_Data = [2, 0, 0, 0] @ uint64ToLEBytes lamports\<rparr>],
      msg_AddressTableLookups = [],
      msg_version = MessageVersionV0\<rparr>"
  unfolding CompileToWrappedMessageV0_def Let_def
  apply (simp add: transfer_keys GetMessageComponents_def CompileInstructions_def index_of_def)
  apply (simp add: key_defs transfer_instruction_def NewAccountMeta_def)
  done

lemma compile_transfer_vault_first:
  "CompileToWrappedMessageV0
       (\<lambda>m. [vault_key, payer_key, recipient_key, SystemProgramID])
       payer_key blockhash [transfer_instruction lamports] [] =
     \<lparr>msg_Header = \<lparr>NumRequiredSignatures = 2, NumReadonlySignedAccounts = 0,
                    NumReadonlyUnsignedAccounts = 1\<rparr>,
      msg_AccountKeys = [vault_key, payer_key, recipient_key, SystemProgramID],
      msg_RecentBlockhash = blockhash,
      msg_Instructions = [\<lparr>sci_ProgramIDIndex = 3, sci_Accounts = [0, 2],
                           sci_Data = [2, 0, 0, 0] @ uint64ToLEBytes lamports\<rparr>],
      msg_AddressTableLookups = [],
      msg_version = MessageVersionV0\<rparr>"
  unfolding CompileToWrappedMessageV0_def Let_def
  apply (simp add: transfer_keys GetMessageComponents_def CompileInstructions_def index_of_def)
  apply (simp add: key_defs transfer_instruction_def NewAccountMeta_def)
  done

text \<open>
  Claim C7. Compiling the same fee payer, the same single transfer, the same blockhash
  and no lookup table, under two orders in which the range over the key map may visit
  its four addresses (both are orders of that map): one run puts the fee payer first
  and compiles the transfer's accounts to the indices 1,2; the other puts the vault
  first and compiles them to 0,2. The two messages differ in the static account keys
  and in the instruction.
\<close>

theorem C7_compilation_depends_on_map_order:
  "range_of (ck_KeyMetaMap (CompileKeys [transfer_instruction lamports] payer_key))
     [payer_key, vault_key, recipient_key, SystemProgramID] \<and>
   range_of (ck_KeyMetaMap (CompileKeys [transfer_instruction lamports] payer_key))
     [vault_key, payer_key, recipient_key, SystemProgramID] \<and>
   msg_AccountKeys (CompileToWrappedMessageV0
       (\<lambda>m. [payer_key, vault_key, recipient_key, SystemProgramID])
       payer_key blockhash [transfer_instruction lamports] []) =
     [payer_key, vault_key, recipient_key, SystemProgramID] \<and>
   msg_AccountKeys (CompileToWrappedMessageV0
       (\<lambda>m. [vault_key, payer_key, recipient_key, SystemProgramID])
       payer_key blockhash [transfer_instruction lamports] []) =
     [vault_key, payer_key, recipient_key, SystemProgramID] \<and>
   map sci_Accounts (msg_Instructions (CompileToWrappedMessageV0
       (\<lambda>m. [payer_key, vault_key, recipient_key, SystemProgramID])
       payer_key blockhash [transfer_instruction lamports] [])) = [[1, 2]] \<and>
   map sci_Accounts (msg_Instructions (CompileToWrappedMessageV0
       (\<lambda>m. [vault_key, payer_key, recipient_key, SystemProgramID])
       payer_key blockhash [transfer_instruction lamports] [])) = [[0, 2]] \<and>
   CompileToWrappedMessageV0
       (\<lambda>m. [payer_key, vault_key, recipient_key, SystemProgramID])
       payer_key blockhash [transfer_instruction lamports] [] \<noteq>
   CompileToWrappedMessageV0
       (\<lambda>m. [vault_key, payer_key, recipient_key, SystemProgramID])
       payer_key blockhash [transfer_instruction lamports] []"
proof -
  have r1: "range_of (ck_KeyMetaMap (CompileKeys [transfer_instruction lamports] payer_key))
     [payer_key, vault_key, recipient_key, SystemProgramID]"
    unfolding range_of_def transfer_dom by (simp add: key_defs)
  have r2: "range_of (ck_KeyMetaMap (CompileKeys [transfer_instruction lamports] payer_key))
     [vault_key, payer_key, recipient_key, SystemProgramID]"
    unfolding range_of_def transfer_dom by (auto simp add: key_defs)
  have "payer_key \<noteq> vault_key" by (simp add: key_defs)
  then show ?thesis
    unfolding compile_transfer_payer_first compile_transfer_vault_first using r1 r2 by simp
qed

subsection \<open>The three checks of an execution\<close>

lemma hasExecutePermission_iff:
  "hasExecutePermission members ex =
     list_ex (\<lambda>member. mem_Key member = ex \<and> mem_Mask member AND 4 \<noteq> 0) members"
  by (induction members) auto

lemma execute_checks_None_iff:
  "execute_checks now ms p ex = None \<longleftrightarrow>
     (\<exists>ts. prop_Status p = ProposalStatusApproved ts \<and>
           (ms_TimeLock ms = 0 \<or> timelockEnd ts (ms_TimeLock ms) \<le> now) \<and>
           has_execute_bit ms ex)"
  by (cases "prop_Status p")
     (auto simp: execute_checks_def has_execute_bit_def hasExecutePermission_iff
        word_greater_zero_iff)

lemma execute_checks_not_approved:
  "(\<forall>ts. prop_Status p \<noteq> ProposalStatusApproved ts) \<Longrightarrow>
   execute_checks now ms p ex = Some (ProposalNotApproved (prop_Status p))"
  by (cases "prop_Status p") (simp_all add: execute_checks_def)

lemma execute_checks_timelock:
  "prop_Status p = ProposalStatusApproved ts \<Longrightarrow> ms_TimeLock ms \<noteq> 0 \<Longrightarrow>
   now < timelockEnd ts (ms_TimeLock ms) \<Longrightarrow>
   execute_checks now ms p ex = Some (TimelockNotElapsed (timelockEnd ts (ms_TimeLock ms)))"
  by (simp add: execute_checks_def word_greater_zero_iff)

lemma execute_checks_permission:
  "prop_Status p = ProposalStatusApproved ts \<Longrightarrow>
   ms_TimeLock ms = 0 \<or> timelockEnd ts (ms_TimeLock ms) \<le> now \<Longrightarrow>
   \<not> has_execute_bit ms ex \<Longrightarrow>
   execute_checks now ms p ex = Some (NoExecutePermission ex)"
  by (auto simp: execute_checks_def has_execute_bit_def hasExecutePermission_iff
      word_greater_zero_iff)

lemma mask_zero_no_execute_bit:
  "list_all (\<lambda>member. mem_Key member = ex \<longrightarrow> mem_Mask member = 0) (ms_Members ms) \<Longrightarrow>
   \<not> has_execute_bit ms ex"
  by (auto simp: has_execute_bit_def list_all_iff list_ex_iff)

lemma execute_with_client_checked:
  assumes "fetchMultisigAccount env c mpda = Inr ms"
    and "fetchProposalAccount env c (env_GetProposalPDA env mpda idx) = Inr p"
  shows "execute_with_client env c mpda idx ex =
     (case execute_checks (env_Now env) ms p ex of
        Some err \<Rightarrow> ([Ev_GetAccountInfo mpda, Ev_GetAccountInfo (env_GetProposalPDA env mpda idx)], Inl err)
      | None \<Rightarrow>
          (Ev_GetAccountInfo mpda # Ev_GetAccountInfo (env_GetProposalPDA env mpda idx) #
             fst (execute_submit env c mpda (env_GetProposalPDA env mpda idx)
                    (env_GetTransactionPDA env mpda idx) idx ex),
           snd (execute_submit env c mpda (env_GetProposalPDA env mpda idx)
                    (env_GetTransactionPDA env mpda idx) idx ex)))"
  using assms
  by (simp add: execute_with_client_def Let_def split: option.split prod.split)

lemma send_in_execute_with_client:
  assumes "Ev_SendTransaction tx \<in> set (fst (execute_with_client env c mpda idx ex))"
  shows "\<exists>ms p. fetchMultisigAccount env c mpda = Inr ms \<and>
     fetchProposalAccount env c (env_GetProposalPDA env mpda idx) = Inr p \<and>
     execute_checks (env_Now env) ms p ex = None"
  using assms
  by (auto simp: execute_with_client_def Let_def split: sum.splits option.splits prod.splits)

lemma ExecuteProposal_events:
  "set (fst (ExecuteProposal env mpda idx executor client ws)) \<subseteq>
     insert Ev_wsConnect (set (fst (execute_with_client env
        (case client of None \<Rightarrow> env_default_endpoint env | Some c \<Rightarrow> c) mpda idx
        (PrivateKey_PublicKey executor))))"
  by (auto simp: ExecuteProposal_def Let_def split: option.splits prod.splits)

lemma ExecuteProposal_result:
  "ws = None \<longrightarrow> ws_Connect (env_default_endpoint env) = None \<Longrightarrow>
   snd (ExecuteProposal env mpda idx executor client ws) =
   snd (execute_with_client env
        (case client of None \<Rightarrow> env_default_endpoint env | Some c \<Rightarrow> c) mpda idx
        (PrivateKey_PublicKey executor))"
  by (auto simp: ExecuteProposal_def Let_def split: option.splits prod.splits)

lemma success_in_execute_with_client:
  assumes "snd (execute_with_client env c mpda idx ex) = Inr out"
  shows "\<exists>ms p. fetchMultisigAccount env c mpda = Inr ms \<and>
     fetchProposalAccount env c (env_GetProposalPDA env mpda idx) = Inr p \<and>
     execute_checks (env_Now env) ms p ex = None"
  using assms
  by (auto simp: execute_with_client_def Let_def split: sum.splits option.splits prod.splits)

lemma ExecuteProposal_success:
  "snd (ExecuteProposal env mpda idx executor client ws) = Inr out \<Longrightarrow>
   snd (execute_with_client env
        (case client of None \<Rightarrow> env_default_endpoint env | Some c \<Rightarrow> c) mpda idx
        (PrivateKey_PublicKey executor)) = Inr out"
  by (auto simp: ExecuteProposal_def Let_def split: option.splits prod.splits)

subsection \<open>The concrete setting\<close>

lemmas demo_keys = multisig_key_def proposal_pda_def transaction_pda_def payer_key_def
  vault_key_def recipient_key_def SystemProgramID_def

lemma member_public_key: "PrivateKey_PublicKey member_keypair = payer_key"
  by (simp add: PrivateKey_PublicKey_def member_keypair_def payer_key_def)

lemma demo_fetch_multisig:
  "fetchMultisigAccount (demo_env ms p now) demo_endpoint multisig_key = Inr ms"
  by (simp add: fetchMultisigAccount_def demo_env_def demo_endpoint_def)

lemma demo_fetch_proposal:
  "fetchProposalAccount (demo_env ms p now) demo_endpoint proposal_pda = Inr p"
  by (simp add: fetchProposalAccount_def demo_env_def demo_endpoint_def demo_keys)

lemma demo_env_simps:
  "env_default_endpoint (demo_env ms p now) = demo_endpoint"
  "env_Now (demo_env ms p now) = now"
  "env_GetProposalPDA (demo_env ms p now) m i = proposal_pda"
  "env_GetTransactionPDA (demo_env ms p now) m i = transaction_pda"
  by (simp_all add: demo_env_def)

lemma demo_execute_submit:
  "execute_submit (demo_env ms p now) demo_endpoint multisig_key proposal_pda transaction_pda 1 payer_key =
     ([Ev_GetAccountInfo transaction_pda, Ev_GetLatestBlockhash, Ev_SendTransaction demo_execute_tx],
      Inr \<lparr>peo_Signature = ''sig'', peo_TransactionPDA = transaction_pda,
           peo_ProposalPDA = proposal_pda, peo_TransactionIndex = 1\<rparr>)"
  by (simp add: execute_submit_def demo_env_def demo_endpoint_def demo_keys Let_def
      createTransactionMessage_def execute_AccountMetaSlice_def additional_isWritable_def
      demo_execute_tx_def)

lemma demo_has_execute_bit:
  "has_execute_bit (demo_multisig lock m) payer_key \<longleftrightarrow> m AND 4 \<noteq> 0"
  by (simp add: has_execute_bit_def demo_multisig_def)

lemma demo_simps:
  "ms_TimeLock (demo_multisig lock m) = lock"
  "ms_Members (demo_multisig lock m) = [\<lparr>mem_Key = payer_key, mem_Mask = m\<rparr>]"
  "prop_Status (demo_proposal st) = st"
  by (simp_all add: demo_multisig_def demo_proposal_def)

lemma demo_ExecuteProposal:
  "execute_checks now ms p payer_key = None \<Longrightarrow>
   ExecuteProposal (demo_env ms p now) multisig_key 1 member_keypair None (Some WsClient) =
     ([Ev_GetAccountInfo multisig_key, Ev_GetAccountInfo proposal_pda,
       Ev_GetAccountInfo transaction_pda, Ev_GetLatestBlockhash, Ev_SendTransaction demo_execute_tx],
      Inr \<lparr>peo_Signature = ''sig'', peo_TransactionPDA = transaction_pda,
           peo_ProposalPDA = proposal_pda, peo_TransactionIndex = 1\<rparr>)"
  by (simp add: ExecuteProposal_def member_public_key demo_env_simps
      execute_with_client_checked[OF demo_fetch_multisig, unfolded demo_env_simps, OF demo_fetch_proposal]
      demo_execute_submit)


subsection \<open>Action of a vote\<close>

text \<open>
  Claim C10. An empty action gives the same run as the action approve, and an action
  that is none of approve, reject and cancel returns the invalid-action error with an
  empty trace of network effects: no connection, no account fetch, no submission.
\<close>

theorem C10_action_default_and_validation:
  "VoteOnProposal env (input\<lparr>pvi_Action := []\<rparr>) =
     VoteOnProposal env (input\<lparr>pvi_Action := ''approve''\<rparr>) \<and>
   (pvi_Action input \<notin> {[], ''approve'', ''reject'', ''cancel''} \<longrightarrow>
      VoteOnProposal env input = ([], Inl (InvalidAction (pvi_Action input))))"
  by (simp add: VoteOnProposal_def Let_def split: option.split)

theorem C10_action_default_and_validation_witness:
  "pvi_Action (demo_vote_input ''veto'') \<notin> {[], ''approve'', ''reject'', ''cancel''} \<and>
   VoteOnProposal
     (demo_env (demo_multisig 0 7) (demo_proposal (ProposalStatusActive 100)) 200000000000)
     (demo_vote_input ''veto'') = ([], Inl (InvalidAction ''veto''))"
  using C10_action_default_and_validation
    [of "demo_env (demo_multisig 0 7) (demo_proposal (ProposalStatusActive 100)) 200000000000"
        "demo_vote_input ''veto''"]
  by (simp add: demo_vote_input_def)

subsection \<open>What a vote checks\<close>




subsection \<open>What an execution requires\<close>

text \<open>
  Claim C3, as amended. \<open>run\<close> is a call of \<open>ExecuteProposal\<close>, \<open>c\<close> the endpoint it
  uses and \<open>ex\<close> the executor's public key. First: if the run submits a transaction,
  or returns an output, then the multisig and the proposal were fetched, the status is
  Approved with some timestamp, the time lock is 0 or the clock has reached the
  timestamp plus the time lock, and a member entry of the executor has the execute
  bit. Second, for fetched records \<open>ms\<close> and \<open>p\<close>: a status other than Approved gives
  the not-approved error; an Approved status with a time lock above 0 that has not
  elapsed gives the time-lock error; with the time lock 0 or elapsed, an executor
  without the execute bit gives the permission error; with the time lock 0 and the
  execute bit, the three checks pass at once and the result is that of the remaining
  steps; and an executor whose member entries all have mask 0 gets an error and
  nothing is submitted.
\<close>

theorem C3_execute_preconditions:
  assumes c: "c = (case client of None \<Rightarrow> env_default_endpoint env | Some c' \<Rightarrow> c')"
    and ex: "ex = PrivateKey_PublicKey executor"
    and pda: "proposalPDA = env_GetProposalPDA env multisigPDA transactionIndex"
    and txpda: "txPDA = env_GetTransactionPDA env multisigPDA transactionIndex"
    and run: "run = ExecuteProposal env multisigPDA transactionIndex executor client wsClient"
  shows
   "((\<exists>tx. Ev_SendTransaction tx \<in> set (fst run)) \<or> (\<exists>out. snd run = Inr out) \<longrightarrow>
       (\<exists>ms p ts. fetchMultisigAccount env c multisigPDA = Inr ms \<and>
          fetchProposalAccount env c proposalPDA = Inr p \<and>
          prop_Status p = ProposalStatusApproved ts \<and>
          (ms_TimeLock ms = 0 \<or> timelockEnd ts (ms_TimeLock ms) \<le> env_Now env) \<and>
          has_execute_bit ms ex)) \<and>
    ((wsClient = None \<longrightarrow> ws_Connect (env_default_endpoint env) = None) \<and>
     fetchMultisigAccount env c multisigPDA = Inr ms \<and>
     fetchProposalAccount env c proposalPDA = Inr p \<longrightarrow>
       ((\<forall>ts. prop_Status p \<noteq> ProposalStatusApproved ts) \<longrightarrow>
          snd run = Inl (ProposalNotApproved (prop_Status p))) \<and>
       (prop_Status p = ProposalStatusApproved ts \<and> ms_TimeLock ms \<noteq> 0 \<and>
        env_Now env < timelockEnd ts (ms_TimeLock ms) \<longrightarrow>
          snd run = Inl (TimelockNotElapsed (timelockEnd ts (ms_TimeLock ms)))) \<and>
       (prop_Status p = ProposalStatusApproved ts \<and>
        (ms_TimeLock ms = 0 \<or> timelockEnd ts (ms_TimeLock ms) \<le> env_Now env) \<and>
        \<not> has_execute_bit ms ex \<longrightarrow>
          snd run = Inl (NoExecutePermission ex)) \<and>
       (prop_Status p = ProposalStatusApproved ts \<and> ms_TimeLock ms = 0 \<and> has_execute_bit ms ex \<longrightarrow>
          snd run = snd (execute_submit env c multisigPDA proposalPDA txPDA transactionIndex ex)) \<and>
       (list_all (\<lambda>member. mem_Key member = ex \<longrightarrow> mem_Mask member = 0) (ms_Members ms) \<longrightarrow>
          (\<exists>e. snd run = Inl e) \<and> (\<forall>tx. Ev_SendTransaction tx \<notin> set (fst run))))"
proof (intro conjI impI)
  assume "(\<exists>tx. Ev_SendTransaction tx \<in> set (fst run)) \<or> (\<exists>out. snd run = Inr out)"
  then have "\<exists>ms p. fetchMultisigAccount env c multisigPDA = Inr ms \<and>
     fetchProposalAccount env c (env_GetProposalPDA env multisigPDA transactionIndex) = Inr p \<and>
     execute_checks (env_Now env) ms p ex = None"
  proof
    assume "\<exists>tx. Ev_SendTransaction tx \<in> set (fst run)"
    then obtain tx where "Ev_SendTransaction tx \<in> set (fst run)" by blast
    with ExecuteProposal_events[of env multisigPDA transactionIndex executor client wsClient]
    have "Ev_SendTransaction tx \<in>
        set (fst (execute_with_client env c multisigPDA transactionIndex ex))"
      unfolding run c ex by auto
    then show ?thesis by (rule send_in_execute_with_client)
  next
    assume "\<exists>out. snd run = Inr out"
    then obtain out where "snd run = Inr out" by blast
    then have "snd (execute_with_client env c multisigPDA transactionIndex ex) = Inr out"
      unfolding run c ex by (rule ExecuteProposal_success)
    then show ?thesis by (rule success_in_execute_with_client)
  qed
  then show
    "\<exists>ms p ts. fetchMultisigAccount env c multisigPDA = Inr ms \<and>
          fetchProposalAccount env c proposalPDA = Inr p \<and>
          prop_Status p = ProposalStatusApproved ts \<and>
          (ms_TimeLock ms = 0 \<or> timelockEnd ts (ms_TimeLock ms) \<le> env_Now env) \<and>
          has_execute_bit ms ex"
    unfolding pda execute_checks_None_iff by blast
next
  assume a: "(wsClient = None \<longrightarrow> ws_Connect (env_default_endpoint env) = None) \<and>
     fetchMultisigAccount env c multisigPDA = Inr ms \<and>
     fetchProposalAccount env c proposalPDA = Inr p"
  then have res: "snd run = snd (execute_with_client env c multisigPDA transactionIndex ex)"
    unfolding run c ex using ExecuteProposal_result by blast
  from a have ewc: "execute_with_client env c multisigPDA transactionIndex ex =
     (case execute_checks (env_Now env) ms p ex of
        Some err \<Rightarrow> ([Ev_GetAccountInfo multisigPDA, Ev_GetAccountInfo proposalPDA], Inl err)
      | None \<Rightarrow>
          (Ev_GetAccountInfo multisigPDA # Ev_GetAccountInfo proposalPDA #
             fst (execute_submit env c multisigPDA proposalPDA txPDA transactionIndex ex),
           snd (execute_submit env c multisigPDA proposalPDA txPDA transactionIndex ex)))"
    unfolding pda txpda by (intro execute_with_client_checked) auto
  {
    assume "\<forall>ts. prop_Status p \<noteq> ProposalStatusApproved ts"
    from execute_checks_not_approved[OF this]
    show "snd run = Inl (ProposalNotApproved (prop_Status p))"
      unfolding res ewc by simp
  }
  {
    assume "prop_Status p = ProposalStatusApproved ts \<and> ms_TimeLock ms \<noteq> 0 \<and>
        env_Now env < timelockEnd ts (ms_TimeLock ms)"
    then have "execute_checks (env_Now env) ms p ex =
       Some (TimelockNotElapsed (timelockEnd ts (ms_TimeLock ms)))"
      by (intro execute_checks_timelock) auto
    then show "snd run = Inl (TimelockNotElapsed (timelockEnd ts (ms_TimeLock ms)))"
      unfolding res ewc by simp
  }
  {
    assume "prop_Status p = ProposalStatusApproved ts \<and>
        (ms_TimeLock ms = 0 \<or> timelockEnd ts (ms_TimeLock ms) \<le> env_Now env) \<and>
        \<not> has_execute_bit ms ex"
    then have "execute_checks (env_Now env) ms p ex = Some (NoExecutePermission ex)"
      by (intro execute_checks_permission) auto
    then show "snd run = Inl (NoExecutePermission ex)"
      unfolding res ewc by simp
  }
  {
    assume "prop_Status p = ProposalStatusApproved ts \<and> ms_TimeLock ms = 0 \<and> has_execute_bit ms ex"
    then have "execute_checks (env_Now env) ms p ex = None"
      unfolding execute_checks_None_iff by blast
    then show "snd run = snd (execute_submit env c multisigPDA proposalPDA txPDA transactionIndex ex)"
      unfolding res ewc by simp
  }
  {
    assume "list_all (\<lambda>member. mem_Key member = ex \<longrightarrow> mem_Mask member = 0) (ms_Members ms)"
    then have nb: "\<not> has_execute_bit ms ex" by (rule mask_zero_no_execute_bit)
    then have "execute_checks (env_Now env) ms p ex \<noteq> None"
      unfolding execute_checks_None_iff by blast
    then obtain err where err: "execute_checks (env_Now env) ms p ex = Some err" by blast
    then show "\<exists>e. snd run = Inl e" unfolding res ewc by simp
    show "\<forall>tx. Ev_SendTransaction tx \<notin> set (fst run)"
    proof (intro allI notI)
      fix tx assume "Ev_SendTransaction tx \<in> set (fst run)"
      with ExecuteProposal_events[of env multisigPDA transactionIndex executor client wsClient]
      have "Ev_SendTransaction tx \<in> set (fst (execute_with_client env c multisigPDA transactionIndex ex))"
        unfolding run c ex by auto
      then show False unfolding ewc err by simp
    qed
  }
qed

text \<open>
  Claim C3 as stated fails for a time lock of 0: the proposal was approved at second
  100, the clock reads second 50, and \<open>ExecuteProposal\<close> submits, because the time
  test is guarded by \<open>TimeLock > 0\<close>.
\<close>

theorem C3_timelock_zero_counterexample:
  "env_Now (demo_env (demo_multisig 0 4) (demo_proposal (ProposalStatusApproved 100)) 50000000000) <
     timelockEnd 100 (ms_TimeLock (demo_multisig 0 4)) \<and>
   ExecuteProposal (demo_env (demo_multisig 0 4) (demo_proposal (ProposalStatusApproved 100)) 50000000000)
       multisig_key 1 member_keypair None (Some WsClient) =
     ([Ev_GetAccountInfo multisig_key, Ev_GetAccountInfo proposal_pda,
       Ev_GetAccountInfo transaction_pda, Ev_GetLatestBlockhash, Ev_SendTransaction demo_execute_tx],
      Inr \<lparr>peo_Signature = ''sig'', peo_TransactionPDA = transaction_pda,
           peo_ProposalPDA = proposal_pda, peo_TransactionIndex = 1\<rparr>)"
proof -
  have "execute_checks 50000000000 (demo_multisig 0 4) (demo_proposal (ProposalStatusApproved 100)) payer_key = None"
    by (simp add: execute_checks_None_iff demo_simps demo_has_execute_bit)
  from demo_ExecuteProposal[OF this] show ?thesis
    by (simp add: demo_env_simps demo_simps timelockEnd_def)
qed

theorem C3_execute_preconditions_witness:
  "snd (ExecuteProposal
      (demo_env (demo_multisig 0 4) (demo_proposal (ProposalStatusActive 100)) 200000000000)
      multisig_key 1 member_keypair None (Some WsClient)) =
     Inl (ProposalNotApproved (ProposalStatusActive 100)) \<and>
   snd (ExecuteProposal
      (demo_env (demo_multisig 3600 4) (demo_proposal (ProposalStatusApproved 100)) 200000000000)
      multisig_key 1 member_keypair None (Some WsClient)) =
     Inl (TimelockNotElapsed 3700000000000) \<and>
   snd (ExecuteProposal
      (demo_env (demo_multisig 0 0) (demo_proposal (ProposalStatusApproved 100)) 200000000000)
      multisig_key 1 member_keypair None (Some WsClient)) =
     Inl (NoExecutePermission payer_key) \<and>
   snd (ExecuteProposal
      (demo_env (demo_multisig 0 4) (demo_proposal (ProposalStatusApproved 100)) 100000000000)
      multisig_key 1 member_keypair None (Some WsClient)) =
     Inr \<lparr>peo_Signature = ''sig'', peo_TransactionPDA = transaction_pda,
          peo_ProposalPDA = proposal_pda, peo_TransactionIndex = 1\<rparr>"
proof -
  note C3_demo = C3_execute_preconditions[OF refl refl refl refl refl,
    where client = None and wsClient = "Some WsClient"
      and multisigPDA = multisig_key and transactionIndex = 1 and executor = member_keypair,
    THEN conjunct2]
  show ?thesis
  proof (intro conjI)
  show "snd (ExecuteProposal
      (demo_env (demo_multisig 0 4) (demo_proposal (ProposalStatusActive 100)) 200000000000)
      multisig_key 1 member_keypair None (Some WsClient)) =
     Inl (ProposalNotApproved (ProposalStatusActive 100))"
    using C3_demo[of "demo_env (demo_multisig 0 4) (demo_proposal (ProposalStatusActive 100)) 200000000000"
        "demo_multisig 0 4" "demo_proposal (ProposalStatusActive 100)" 100]
    by (simp add: demo_simps demo_env_simps member_public_key demo_fetch_multisig demo_fetch_proposal)
  show "snd (ExecuteProposal
      (demo_env (demo_multisig 3600 4) (demo_proposal (ProposalStatusApproved 100)) 200000000000)
      multisig_key 1 member_keypair None (Some WsClient)) =
     Inl (TimelockNotElapsed 3700000000000)"
    using C3_demo[of "demo_env (demo_multisig 3600 4) (demo_proposal (ProposalStatusApproved 100)) 200000000000"
        "demo_multisig 3600 4" "demo_proposal (ProposalStatusApproved 100)" 100]
    by (simp add: demo_simps timelockEnd_def demo_env_simps member_public_key
        demo_fetch_multisig demo_fetch_proposal)
  show "snd (ExecuteProposal
      (demo_env (demo_multisig 0 0) (demo_proposal (ProposalStatusApproved 100)) 200000000000)
      multisig_key 1 member_keypair None (Some WsClient)) =
     Inl (NoExecutePermission payer_key)"
    using C3_demo[of "demo_env (demo_multisig 0 0) (demo_proposal (ProposalStatusApproved 100)) 200000000000"
        "demo_multisig 0 0" "demo_proposal (ProposalStatusApproved 100)" 100]
    by (simp add: demo_simps demo_has_execute_bit demo_env_simps member_public_key
        demo_fetch_multisig demo_fetch_proposal)
  show "snd (ExecuteProposal
      (demo_env (demo_multisig 0 4) (demo_proposal (ProposalStatusApproved 100)) 100000000000)
      multisig_key 1 member_keypair None (Some WsClient)) =
     Inr \<lparr>peo_Signature = ''sig'', peo_TransactionPDA = transaction_pda,
          peo_ProposalPDA = proposal_pda, peo_TransactionIndex = 1\<rparr>"
    using C3_demo[of "demo_env (demo_multisig 0 4) (demo_proposal (ProposalStatusApproved 100)) 100000000000"
        "demo_multisig 0 4" "demo_proposal (ProposalStatusApproved 100)" 100]
    by (simp add: demo_simps demo_has_execute_bit demo_execute_submit demo_env_simps
        member_public_key demo_fetch_multisig demo_fetch_proposal)
  qed
qed

end
